theory Spec2Isabelle
  imports Complex_Main "HOL-Library.Word"
begin

section \<open>Python values and builtins used by the two modules\<close>

text \<open>
  Both modules signal every failure by raising. The model returns the exception as a value:
  \<open>Inl e\<close> is a raise of \<open>e\<close>, \<open>Inr v\<close> a normal return of \<open>v\<close>. \<open>ValueError\<close> is the
  exception the specification calls InvalidInput.
\<close>

datatype py_error = ValueError | IndexError | TypeError | ZeroDivisionError

text \<open>\<open>str(n)\<close> for a non-negative Python int: its decimal digits.\<close>

definition digit_char :: "nat \<Rightarrow> char" where
  "digit_char d = ''0123456789'' ! d"

fun str_nat :: "nat \<Rightarrow> string" where
  "str_nat n = (if n < 10 then [digit_char n] else str_nat (n div 10) @ [digit_char (n mod 10)])"

declare str_nat.simps [simp del]

text \<open>\<open>range(n)\<close> for a Python int \<open>n\<close>: empty when \<open>n \<le> 0\<close>.\<close>

definition py_range :: "int \<Rightarrow> nat list" where
  "py_range n = [0..<nat n]"

text \<open>\<open>str(i)\<close> for any Python int.\<close>

definition str_int :: "int \<Rightarrow> string" where
  "str_int i = (if i < 0 then ''-'' @ str_nat (nat (- i)) else str_nat (nat i))"

text \<open>
  Fields documented as ``str/int'' (cardinalities, dimensions, component types) hold either
  a Python string or a Python int.
\<close>

datatype pyval = PStr string | PInt int

fun str_pyval :: "pyval \<Rightarrow> string" where
  "str_pyval (PStr s) = s"
| "str_pyval (PInt i) = str_int i"

text \<open>The newline character, and \<open>sep.join(xs)\<close> on a list of strings.\<close>

definition NL :: string where
  "NL = [CHR 0x0A]"

fun py_join :: "string \<Rightarrow> string list \<Rightarrow> string" where
  "py_join sep [] = ''''"
| "py_join sep [x] = x"
| "py_join sep (x # y # ys) = x @ sep @ py_join sep (y # ys)"

text \<open>\<open>sep.join(xs)\<close> raises \<open>TypeError\<close> as soon as an item of \<open>xs\<close> is not a string.\<close>

fun the_strs :: "pyval list \<Rightarrow> py_error + string list" where
  "the_strs [] = Inr []"
| "the_strs (PInt i # xs) = Inl TypeError"
| "the_strs (PStr s # xs) = (case the_strs xs of Inl e \<Rightarrow> Inl e | Inr ss \<Rightarrow> Inr (s # ss))"

definition py_join_vals :: "string \<Rightarrow> pyval list \<Rightarrow> py_error + string" where
  "py_join_vals sep xs = (case the_strs xs of Inl e \<Rightarrow> Inl e | Inr ss \<Rightarrow> Inr (py_join sep ss))"

text \<open>
  The builtin \<open>sum(xs)\<close>: a left fold of \<open>+\<close> from the int \<open>0\<close>. No law of addition is assumed
  of the value type, so the definition also reads as floating-point addition, which is not
  associative.
\<close>

definition py_sum :: "'v::{zero,plus} list \<Rightarrow> 'v" where
  "py_sum xs = foldl (+) 0 xs"

text \<open>
  An \<open>OrderedDict\<close> is the list of its items in insertion order. \<open>d[k] = v\<close> overwrites the
  value of a key that is present, where it stands, and appends the item otherwise.
\<close>

primrec setitem :: "('k \<times> 'a) list \<Rightarrow> 'k \<Rightarrow> 'a \<Rightarrow> ('k \<times> 'a) list" where
  "setitem [] k v = [(k, v)]"
| "setitem (p # ps) k v = (if fst p = k then (k, v) # ps else p # setitem ps k v)"

section \<open>gen\_gmtk\_params.py: name generation\<close>

definition allowed_types :: "string list" where
  "allowed_types = [''mx'', ''mc_diag'', ''mc_gamma'', ''mc_missing'', ''mean'',
                    ''covar'', ''col'', ''mx_name'', ''dpmf'', ''gammascale'',
                    ''gammashape'', ''tied_covar'']"

text \<open>
  The body of the innermost loop of the last branch of \<open>generate_gmtk_obj_names\<close>: the
  \<open>line\<close> appended for segment \<open>i\<close>, subsegment \<open>j\<close> and track \<open>name\<close>.
\<close>

definition general_line :: "string \<Rightarrow> string \<Rightarrow> nat \<Rightarrow> nat \<Rightarrow> string \<Rightarrow> string" where
  "general_line obj distribution i j name =
     (if obj = ''mc_diag'' then
        ''mc_'' @ distribution @ ''_seg'' @ str_nat i @ ''_subseg'' @ str_nat j @ ''_'' @ name
      else if obj = ''mc_missing'' then
        ''''
      else
        obj @ ''_seg'' @ str_nat i @ ''_subseg'' @ str_nat j @ ''_'' @ name)"

text \<open>
  \<open>generate_gmtk_obj_names(obj, track_names, num_segs, num_subsegs, distribution,
  num_mix_components)\<close>. Each \<open>for\<close> loop is a \<open>fold\<close> over the iterated list whose state is
  the list \<open>names\<close>, and \<open>names.append(x)\<close> is \<open>names @ [x]\<close>.
\<close>

definition generate_gmtk_obj_names ::
  "string \<Rightarrow> string list \<Rightarrow> int \<Rightarrow> int \<Rightarrow> string \<Rightarrow> int \<Rightarrow> py_error + string list" where
  "generate_gmtk_obj_names obj track_names num_segs num_subsegs distribution num_mix_components =
     (if obj \<notin> set allowed_types then Inl ValueError
      else if obj = ''covar'' then
        Inr (fold (\<lambda>name names. names @ [''covar_'' @ name]) track_names [])
      else if obj = ''tied_covar'' then
        Inr (fold (\<lambda>name names. names @ [''covar_'' @ name]) track_names [])
      else if obj = ''col'' then
        Inr (fold (\<lambda>name names. names @ [''collection_seg_'' @ name]) track_names [])
      else if obj = ''mx_name'' then
        Inr (fold (\<lambda>name.
               fold (\<lambda>i.
                 fold (\<lambda>j names.
                   names @ [''mx_seg'' @ str_nat i @ ''_subseg'' @ str_nat j @ ''_'' @ name])
                 (py_range num_subsegs))
               (py_range num_segs))
             track_names [])
      else if obj = ''dpmf'' \<and> num_mix_components = 1 then
        Inr [''dpmf_always'']
      else
        Inr (fold (\<lambda>i.
               fold (\<lambda>j.
                 fold (\<lambda>name names. names @ [general_line obj distribution i j name])
                 track_names)
               (py_range num_subsegs))
             (py_range num_segs) []))"

section \<open>gen\_gmtk\_params.py: the wire objects\<close>

text \<open>
  The type variable \<open>'v\<close> is the type of the numeric payload (Python floats in practice).
  The model never computes the text of a float: every rendering function takes the builtin
  \<open>str\<close> on payload values as its first argument \<open>sv\<close>.
\<close>

definition MC_TYPE_DIAG :: string where
  "MC_TYPE_DIAG = ''COMPONENT_TYPE_DIAG_GAUSSIAN''"

definition MC_TYPE_GAMMA :: string where
  "MC_TYPE_GAMMA = ''COMPONENT_TYPE_GAMMA''"

definition MC_TYPE_MISSING :: string where
  "MC_TYPE_MISSING = ''COMPONENT_TYPE_MISSING_FEATURE_SCALED_DIAG_GAUSSIAN''"

subsection \<open>DenseCPT\<close>

text \<open>
  \<open>prob\<close> is a nested list of floats: a list of floats, or a list of such nested lists.
  \<open>parent_card\<close> is \<open>None\<close> for the sentinel \<open>-1\<close> (no parents).
\<close>

datatype 'v prob = Floats "'v list" | Nested "'v prob list"

record 'v DenseCPT =
  dense_name :: string
  dense_parent_card :: "pyval list option"
  dense_cardinality :: pyval
  dense_prob :: "'v prob"

text \<open>Results of a loop body collected in order; the first raise ends the loop.\<close>

fun collect :: "(py_error + 'a) list \<Rightarrow> py_error + 'a list" where
  "collect [] = Inr []"
| "collect (Inl e # rs) = Inl e"
| "collect (Inr x # rs) = (case collect rs of Inl e \<Rightarrow> Inl e | Inr xs \<Rightarrow> Inr (x # xs))"

text \<open>\<open>DenseCPT.generate_prob\<close>: \<open>prob[0]\<close> raises \<open>IndexError\<close> on an empty list.\<close>

fun generate_prob :: "('v \<Rightarrow> string) \<Rightarrow> 'v prob \<Rightarrow> py_error + string" where
  "generate_prob sv (Floats []) = Inl IndexError"
| "generate_prob sv (Floats (v # vs)) = Inr (py_join '' '' (map sv (v # vs)))"
| "generate_prob sv (Nested []) = Inl IndexError"
| "generate_prob sv (Nested (p # ps)) =
     (case collect (map (generate_prob sv) (p # ps)) of
        Inl e \<Rightarrow> Inl e
      | Inr line \<Rightarrow> Inr (py_join NL line))"

definition DenseCPT_generate :: "('v \<Rightarrow> string) \<Rightarrow> 'v DenseCPT \<Rightarrow> nat \<Rightarrow> py_error + string" where
  "DenseCPT_generate sv self index =
     (let line = [str_nat index, dense_name self];
          line = (case dense_parent_card self of
                    None \<Rightarrow> line @ [str_nat 0]
                  | Some parent_card \<Rightarrow>
                      line @ [str_nat (length parent_card)] @ map str_pyval parent_card);
          line = line @ [str_pyval (dense_cardinality self)]
      in case generate_prob sv (dense_prob self) of
           Inl e \<Rightarrow> Inl e
         | Inr p \<Rightarrow> Inr (py_join NL [py_join '' '' line, p @ NL, NL]))"

subsection \<open>DeterministicCPT\<close>

record DeterministicCPT =
  det_name :: string
  det_parent_card :: "pyval list"
  det_cardinality :: pyval
  det_dt :: string

definition DeterministicCPT_generate :: "DeterministicCPT \<Rightarrow> nat \<Rightarrow> py_error + string" where
  "DeterministicCPT_generate self index =
     (let lines = [py_join '' '' [str_nat index, det_name self],
                   str_nat (length (det_parent_card self))];
          num_parents_cardinalities = det_parent_card self @ [det_cardinality self]
      in case py_join_vals '' '' num_parents_cardinalities of
           Inl e \<Rightarrow> Inl e
         | Inr l \<Rightarrow> Inr (py_join NL (lines @ [l, det_dt self, NL])))"

subsection \<open>NameCollection\<close>

record NameCollection =
  col_name :: string
  names_in_col :: "string list"

definition NameCollection_generate :: "NameCollection \<Rightarrow> nat \<Rightarrow> string" where
  "NameCollection_generate self index =
     (let line = [str_nat index, col_name self, str_nat (length (names_in_col self))]
      in py_join NL [py_join '' '' line, py_join NL (names_in_col self), NL])"

subsection \<open>Mean, Covar and DPMF\<close>

record 'v Mean =
  mean_name :: string
  mean_values :: "'v list"

definition Mean_generate :: "('v \<Rightarrow> string) \<Rightarrow> 'v Mean \<Rightarrow> nat \<Rightarrow> string" where
  "Mean_generate sv self index =
     (let line = [str_nat index, mean_name self, str_nat (length (mean_values self))];
          mean_str = fold (\<lambda>i mean_str. mean_str @ [sv i]) (mean_values self) []
      in py_join '' '' (line @ mean_str @ [NL]))"

record 'v Covar =
  covar_name :: string
  covar_values :: "'v list"

definition Covar_generate :: "('v \<Rightarrow> string) \<Rightarrow> 'v Covar \<Rightarrow> nat \<Rightarrow> string" where
  "Covar_generate sv self index =
     (let line = [str_nat index, covar_name self, str_nat (length (covar_values self))];
          covar_str = fold (\<lambda>i covar_str. covar_str @ [sv i]) (covar_values self) []
      in py_join '' '' (line @ covar_str @ [NL]))"

record 'v DPMF =
  dpmf_name :: string
  dpmf_values :: "'v list"

text \<open>
  \<open>DPMF.__init__(name, *args)\<close>: the values are collected one by one, and the constructor
  raises \<open>ValueError\<close> when their \<open>sum\<close> differs from \<open>1.0\<close>.
\<close>

definition DPMF_init :: "string \<Rightarrow> 'v::{zero,one,plus} list \<Rightarrow> py_error + 'v DPMF" where
  "DPMF_init name args =
     (let dpmf_values = fold (\<lambda>val dpmf_values. dpmf_values @ [val]) args []
      in if py_sum dpmf_values \<noteq> 1 then Inl ValueError
         else Inr \<lparr>dpmf_name = name, dpmf_values = dpmf_values\<rparr>)"

definition DPMF_generate :: "('v \<Rightarrow> string) \<Rightarrow> 'v DPMF \<Rightarrow> nat \<Rightarrow> string" where
  "DPMF_generate sv self index =
     (let line = [str_nat index, dpmf_name self, str_nat (length (dpmf_values self))];
          dpmf_str = fold (\<lambda>i dpmf_str. dpmf_str @ [sv i]) (dpmf_values self) []
      in py_join '' '' (line @ dpmf_str @ [NL]))"

subsection \<open>MC\<close>

text \<open>
  Of the \<open>mean\<close> and \<open>covar\<close> of a component only the attribute \<open>name\<close> is ever read. (The
  default for \<open>covar\<close> is the object \<open>Mean('sample_covar')\<close>; it is the \<open>Covar\<close> of that name
  and no values here.)
\<close>

record 'v MC =
  mc_name :: string
  mc_dim :: pyval
  mc_type :: pyval
  mc_mean :: "'v Mean"
  mc_covar :: "'v Covar"
  mc_weights :: "'v list"
  mc_gamma_shape :: string
  mc_gamma_scale :: string

definition MC_generate :: "'v MC \<Rightarrow> nat \<Rightarrow> string" where
  "MC_generate self index =
     (let line = [str_nat index, str_pyval (mc_dim self)]
      in if mc_type self = PStr MC_TYPE_GAMMA then
           py_join '' '' (line @ [str_pyval (mc_type self), mc_gamma_scale self,
                                  mc_gamma_shape self])
         else if mc_type self = PStr MC_TYPE_MISSING then
           py_join '' '' (line @ [str_pyval (mc_type self), mc_name self,
                                  mean_name (mc_mean self), covar_name (mc_covar self),
                                  ''matrix_weightscale_1x1'', NL])
         else
           py_join '' '' (line @ [str_pyval (mc_type self), mc_name self,
                                  mean_name (mc_mean self), covar_name (mc_covar self), NL]))"

subsection \<open>MX\<close>

record 'v MX =
  mx_name :: string
  mx_dim :: pyval
  mx_comp :: "'v MC list"
  mx_dpmf :: "'v DPMF"

text \<open>The argument \<open>components\<close> of \<open>MX.__init__\<close>: one component, or a list of them.\<close>

datatype 'v components = Component "'v MC" | Components "'v MC list"

definition MX_init :: "string \<Rightarrow> pyval \<Rightarrow> 'v DPMF \<Rightarrow> 'v components \<Rightarrow> py_error + 'v MX" where
  "MX_init name dim' dpmf components =
     (let components = (case components of Component c \<Rightarrow> [c] | Components cs \<Rightarrow> cs)
      in if length (dpmf_values dpmf) \<noteq> length components then Inl ValueError
         else Inr \<lparr>mx_name = name, mx_dim = dim', mx_comp = components, mx_dpmf = dpmf\<rparr>)"

definition MX_generate :: "'v MX \<Rightarrow> nat \<Rightarrow> string" where
  "MX_generate self index =
     (let line = [str_nat index, str_pyval (mx_dim self), mx_name self,
                  str_nat (length (mx_comp self)), dpmf_name (mx_dpmf self)];
          comp_names = fold (\<lambda>comp comp_names. comp_names @ [mc_name comp]) (mx_comp self) []
      in py_join '' '' (line @ comp_names @ [NL]))"

section \<open>gen\_gmtk\_params.py: the registry InputMaster\<close>

text \<open>
  What \<open>update\<close> may be handed: an instance of one of the eight wire classes, or any other
  Python object.
\<close>

datatype 'v gmtk_obj =
    OMean "'v Mean"
  | OCovar "'v Covar"
  | ODeterministicCPT DeterministicCPT
  | ODenseCPT "'v DenseCPT"
  | ODPMF "'v DPMF"
  | OMC "'v MC"
  | OMX "'v MX"
  | ONameCollection NameCollection
  | OOther

text \<open>The argument of \<open>update\<close>: a single object, or a Python list of objects.\<close>

datatype 'v update_arg = Single "'v gmtk_obj" | Many "'v gmtk_obj list"

record 'v InputMaster =
  mean :: "(string \<times> 'v Mean) list"
  covar :: "(string \<times> 'v Covar) list"
  dense :: "(string \<times> 'v DenseCPT) list"
  deterministic :: "(string \<times> DeterministicCPT) list"
  dpmf :: "(string \<times> 'v DPMF) list"
  mc :: "(string \<times> 'v MC) list"
  mx :: "(string \<times> 'v MX) list"
  name_collection :: "(string \<times> NameCollection) list"

definition InputMaster_init :: "'v InputMaster" where
  "InputMaster_init = \<lparr>mean = [], covar = [], dense = [], deterministic = [], dpmf = [],
                        mc = [], mx = [], name_collection = []\<rparr>"

text \<open>The \<open>isinstance\<close> disjunction of the first loop of \<open>update\<close>.\<close>

fun is_allowed :: "'v gmtk_obj \<Rightarrow> bool" where
  "is_allowed OOther = False"
| "is_allowed obj = True"

text \<open>The first loop of \<open>update\<close>: \<open>Some e\<close> when it raises \<open>e\<close>.\<close>

fun check_allowed :: "'v gmtk_obj list \<Rightarrow> py_error option" where
  "check_allowed [] = None"
| "check_allowed (obj # objs) =
     (if \<not> is_allowed obj then Some ValueError else check_allowed objs)"

text \<open>
  The body of the second loop of \<open>update\<close>. The loop is only reached when every object is of
  an allowed type, so the last equation is never used.
\<close>

fun register :: "'v InputMaster \<Rightarrow> 'v gmtk_obj \<Rightarrow> 'v InputMaster" where
  "register self (OMean obj) = self\<lparr>mean := setitem (mean self) (mean_name obj) obj\<rparr>"
| "register self (OCovar obj) = self\<lparr>covar := setitem (covar self) (covar_name obj) obj\<rparr>"
| "register self (ODeterministicCPT obj) =
     self\<lparr>deterministic := setitem (deterministic self) (det_name obj) obj\<rparr>"
| "register self (ODenseCPT obj) = self\<lparr>dense := setitem (dense self) (dense_name obj) obj\<rparr>"
| "register self (ODPMF obj) = self\<lparr>dpmf := setitem (dpmf self) (dpmf_name obj) obj\<rparr>"
| "register self (OMC obj) = self\<lparr>mc := setitem (mc self) (mc_name obj) obj\<rparr>"
| "register self (OMX obj) = self\<lparr>mx := setitem (mx self) (mx_name obj) obj\<rparr>"
| "register self (ONameCollection obj) =
     self\<lparr>name_collection := setitem (name_collection self) (col_name obj) obj\<rparr>"
| "register self OOther = self"

text \<open>
  \<open>InputMaster.update(gmtk_obj)\<close> mutates the registry in place and may raise: the model
  returns the exception raised, if any, together with the registry as the call leaves it.
\<close>

definition update :: "'v InputMaster \<Rightarrow> 'v update_arg \<Rightarrow> py_error option \<times> 'v InputMaster" where
  "update self gmtk_obj =
     (let gmtk_obj = (case gmtk_obj of Single obj \<Rightarrow> [obj] | Many objs \<Rightarrow> objs)
      in case check_allowed gmtk_obj of
           Some e \<Rightarrow> (Some e, self)
         | None \<Rightarrow> (None, fold (\<lambda>obj self. register self obj) gmtk_obj self))"

subsection \<open>Rendering\<close>

text \<open>
  A \<open>generate_<kind>\<close> method returns the empty list \<open>[]\<close> when its mapping is empty and a
  string otherwise; \<open>"".join\<close> of either is a string.
\<close>

datatype block = EmptyList | Text string

fun join_block :: "block \<Rightarrow> string" where
  "join_block EmptyList = ''''"
| "join_block (Text s) = s"

text \<open>
  The eight \<open>generate_<kind>\<close> methods have one body, up to the header line and the mapping
  read. Item \<open>key_index\<close> is \<open>d[list(d)[key_index]]\<close>: the value at position \<open>key_index\<close>, the
  keys of a dictionary being distinct.
\<close>

definition generate_kind ::
  "string \<Rightarrow> ('o \<Rightarrow> nat \<Rightarrow> py_error + string) \<Rightarrow> (string \<times> 'o) list \<Rightarrow> py_error + block" where
  "generate_kind header gen d =
     (if length d = 0 then Inr EmptyList
      else
        let lines = [header];
            lines = lines @ [str_nat (length d) @ NL]
        in case collect (map (\<lambda>key_index. gen (snd (d ! key_index)) key_index) [0..<length d]) of
             Inl e \<Rightarrow> Inl e
           | Inr items \<Rightarrow> Inr (Text (py_join NL (lines @ items))))"

definition generate_mean :: "('v \<Rightarrow> string) \<Rightarrow> 'v InputMaster \<Rightarrow> py_error + block" where
  "generate_mean sv self =
     generate_kind ''MEAN_IN_FILE inline'' (\<lambda>obj i. Inr (Mean_generate sv obj i)) (mean self)"

definition generate_covar :: "('v \<Rightarrow> string) \<Rightarrow> 'v InputMaster \<Rightarrow> py_error + block" where
  "generate_covar sv self =
     generate_kind ''COVAR_IN_FILE inline'' (\<lambda>obj i. Inr (Covar_generate sv obj i)) (covar self)"

definition generate_dense :: "('v \<Rightarrow> string) \<Rightarrow> 'v InputMaster \<Rightarrow> py_error + block" where
  "generate_dense sv self =
     generate_kind ''DENSE_CPT_IN_FILE inline'' (DenseCPT_generate sv) (dense self)"

definition generate_deterministic :: "'v InputMaster \<Rightarrow> py_error + block" where
  "generate_deterministic self =
     generate_kind ''DETERMINISTIC_CPT_IN_FILE inline'' DeterministicCPT_generate
       (deterministic self)"

definition generate_dpmf :: "('v \<Rightarrow> string) \<Rightarrow> 'v InputMaster \<Rightarrow> py_error + block" where
  "generate_dpmf sv self =
     generate_kind ''DPMF_IN_FILE inline'' (\<lambda>obj i. Inr (DPMF_generate sv obj i)) (dpmf self)"

definition generate_mc :: "'v InputMaster \<Rightarrow> py_error + block" where
  "generate_mc self =
     generate_kind ''MC_IN_FILE inline'' (\<lambda>obj i. Inr (MC_generate obj i)) (mc self)"

definition generate_mx :: "'v InputMaster \<Rightarrow> py_error + block" where
  "generate_mx self =
     generate_kind ''MX_IN_FILE inline'' (\<lambda>obj i. Inr (MX_generate obj i)) (mx self)"

definition generate_name_col :: "'v InputMaster \<Rightarrow> py_error + block" where
  "generate_name_col self =
     generate_kind ''NAME_COLLECTION_IN_FILE inline''
       (\<lambda>obj i. Inr (NameCollection_generate obj i)) (name_collection self)"

text \<open>
  \<open>InputMaster.__str__\<close>. The list \<open>attrs_gen\<close> is built left to right, so the first method
  that raises ends the call.
\<close>

definition InputMaster_str :: "('v \<Rightarrow> string) \<Rightarrow> 'v InputMaster \<Rightarrow> py_error + string" where
  "InputMaster_str sv self =
     (case collect [generate_name_col self, generate_deterministic self,
                    generate_dense sv self, generate_mean sv self,
                    generate_covar sv self, generate_dpmf sv self,
                    generate_mc self, generate_mx self] of
        Inl e \<Rightarrow> Inl e
      | Inr attrs_gen \<Rightarrow>
          Inr (concat (fold (\<lambda>obj s. s @ [join_block obj]) attrs_gen [])))"

subsection \<open>Observing the registry by kind\<close>

datatype kind =
  KMean | KCovar | KDeterministicCPT | KDenseCPT | KDPMF | KMC | KMX | KNameCollection

fun kind_of :: "'v gmtk_obj \<Rightarrow> kind option" where
  "kind_of (OMean obj) = Some KMean"
| "kind_of (OCovar obj) = Some KCovar"
| "kind_of (ODeterministicCPT obj) = Some KDeterministicCPT"
| "kind_of (ODenseCPT obj) = Some KDenseCPT"
| "kind_of (ODPMF obj) = Some KDPMF"
| "kind_of (OMC obj) = Some KMC"
| "kind_of (OMX obj) = Some KMX"
| "kind_of (ONameCollection obj) = Some KNameCollection"
| "kind_of OOther = None"

text \<open>The attribute \<open>name\<close> of a wire object.\<close>

fun name_of :: "'v gmtk_obj \<Rightarrow> string option" where
  "name_of (OMean obj) = Some (mean_name obj)"
| "name_of (OCovar obj) = Some (covar_name obj)"
| "name_of (ODeterministicCPT obj) = Some (det_name obj)"
| "name_of (ODenseCPT obj) = Some (dense_name obj)"
| "name_of (ODPMF obj) = Some (dpmf_name obj)"
| "name_of (OMC obj) = Some (mc_name obj)"
| "name_of (OMX obj) = Some (mx_name obj)"
| "name_of (ONameCollection obj) = Some (col_name obj)"
| "name_of OOther = None"

text \<open>The items of the mapping of a kind, in order; position in this list is the rendering index.\<close>

fun slot :: "kind \<Rightarrow> 'v InputMaster \<Rightarrow> (string \<times> 'v gmtk_obj) list" where
  "slot KMean self = map (\<lambda>(n, obj). (n, OMean obj)) (mean self)"
| "slot KCovar self = map (\<lambda>(n, obj). (n, OCovar obj)) (covar self)"
| "slot KDeterministicCPT self = map (\<lambda>(n, obj). (n, ODeterministicCPT obj)) (deterministic self)"
| "slot KDenseCPT self = map (\<lambda>(n, obj). (n, ODenseCPT obj)) (dense self)"
| "slot KDPMF self = map (\<lambda>(n, obj). (n, ODPMF obj)) (dpmf self)"
| "slot KMC self = map (\<lambda>(n, obj). (n, OMC obj)) (mc self)"
| "slot KMX self = map (\<lambda>(n, obj). (n, OMX obj)) (mx self)"
| "slot KNameCollection self = map (\<lambda>(n, obj). (n, ONameCollection obj)) (name_collection self)"

section \<open>segway\_input\_master.py: transition tables\<close>

text \<open>
  Probabilities are Python floats (IEEE doubles). The type of floats is a type variable \<open>'f\<close>
  of which only the operations used are required and no law is assumed, so that every
  statement below also reads in double arithmetic. The two conversions from Python ints are
  arguments of the model: \<open>to_float n\<close> is the float an int operand \<open>n\<close> of a float operation is
  converted to, and \<open>true_div a b\<close> is the float \<open>a / b\<close> of two ints (under
  \<open>from __future__ import division\<close>) for \<open>b \<noteq> 0\<close>.
\<close>

text \<open>A numpy array of one or of two dimensions.\<close>

datatype 'f ndarray = Array1 "'f list" | Array2 "'f list list"

text \<open>
  Modelled from the spec: \<open>fill_array\<close> of \<open>genomedata._util\<close> is not part of the repository;
  it is ``a domain utility producing a constant-filled array of a given shape''. As numpy
  does, it raises \<open>ValueError\<close> on a negative dimension.
\<close>

definition fill_array :: "'f \<Rightarrow> int \<times> int \<Rightarrow> py_error + 'f list list" where
  "fill_array scalar shape =
     (if fst shape < 0 \<or> snd shape < 0 then Inl ValueError
      else Inr (replicate (nat (fst shape)) (replicate (nat (snd shape)) scalar)))"

text \<open>
  \<open>make_zero_diagonal_table(length)\<close>. The assignment \<open>res[range_cpt, range_cpt] = x\<close> stores
  \<open>x\<close> at \<open>res[i, i]\<close> for each \<open>i\<close> of the range.
\<close>

definition make_zero_diagonal_table ::
  "(int \<Rightarrow> 'f) \<Rightarrow> int \<Rightarrow> py_error + ('f::{zero,one,minus,inverse}) ndarray" where
  "make_zero_diagonal_table to_float length' =
     (if length' = 1 then Inr (Array1 [1])
      else
        let prob_self_self = 0;
            prob_self_other = (1 - prob_self_self) / to_float (length' - 1)
        in case fill_array prob_self_other (length', length') of
             Inl e \<Rightarrow> Inl e
           | Inr res \<Rightarrow>
               let range_cpt = py_range length';
                   res = fold (\<lambda>i res. res[i := (res ! i)[i := prob_self_self]]) range_cpt res
               in Inr (Array2 res))"

subsection \<open>The duration table\<close>

text \<open>
  The attributes a builder copies from its saver. \<open>seg_table\<close> and \<open>seg_countdowns_initial\<close>
  are numpy arrays of numpy's default integer type, 64 bits wide and signed: their entries
  are words, read by \<open>sint\<close>, and arithmetic on them wraps. A row of \<open>seg_table\<close> is read only
  at its columns \<open>OFFSET_START\<close>, \<open>OFFSET_END\<close> and \<open>OFFSET_STEP\<close>, whose indices are constants
  of \<open>_util\<close>, outside the repository: a row is the record of these three entries.
\<close>

type_synonym int64 = "64 word"

record seg_table_row =
  offset_start :: int64
  offset_end :: int64
  offset_step :: int64

record attrs =
  num_segs :: int
  num_subsegs :: int
  num_track_groups :: int
  card_seg_countdown :: int
  seg_countdowns_initial :: "int64 list"
  seg_table :: "seg_table_row list"
  distribution :: string
  resolution :: int


definition LEN_SEG_EXPECTED :: int where
  "LEN_SEG_EXPECTED = 100000"

definition LEN_SUBSEG_EXPECTED :: int where
  "LEN_SUBSEG_EXPECTED = 100"

definition probs_force_transition :: "'f::{zero,one} list" where
  "probs_force_transition = [0, 0, 1]"

text \<open>True division of Python ints raises \<open>ZeroDivisionError\<close> on a zero divisor.\<close>

definition prob_transition_from_expected_len ::
  "(int \<Rightarrow> int \<Rightarrow> 'f) \<Rightarrow> int \<Rightarrow> py_error + 'f" where
  "prob_transition_from_expected_len true_div length' =
     (if 1 + length' = 0 then Inl ZeroDivisionError
      else Inr (true_div length' (1 + length')))"

text \<open>\<open>length // self.resolution\<close> on Python ints: floor division, raising on zero.\<close>

definition calc_prob_transition ::
  "(int \<Rightarrow> int \<Rightarrow> 'f) \<Rightarrow> 'a attrs_scheme \<Rightarrow> int \<Rightarrow> py_error + ('f::{one,minus}) \<times> 'f" where
  "calc_prob_transition true_div self length' =
     (if resolution self = 0 then Inl ZeroDivisionError
      else
        let length_scaled = length' div resolution self
        in case prob_transition_from_expected_len true_div length_scaled of
             Inl e \<Rightarrow> Inl e
           | Inr prob_self_self \<Rightarrow> Inr (prob_self_self, 1 - prob_self_self))"

definition probs_allow_transition :: "'f \<times> 'f \<Rightarrow> 'f \<times> 'f \<Rightarrow> ('f::times) list" where
  "probs_allow_transition seg subseg =
     [fst seg * fst subseg, fst seg * snd subseg, snd seg]"

definition probs_prevent_transition :: "'f \<times> 'f \<Rightarrow> ('f::zero) list" where
  "probs_prevent_transition subseg = [fst subseg, snd subseg, 0]"

text \<open>
  The table \<open>res\<close> has one row per countdown value and one cell per label; a cell holds a
  vector of \<open>CARD_SEGTRANSITION\<close> probabilities, or \<open>None\<close> as long as nothing has been stored
  in the memory that \<open>empty\<close> returned.
\<close>

type_synonym 'f cpt = "'f list option list list"

definition empty_cpt :: "nat \<Rightarrow> nat \<Rightarrow> 'f cpt" where
  "empty_cpt rows n = replicate rows (replicate n None)"

text \<open>
  A bound \<open>a\<close> of a slice of an axis of length \<open>n\<close>: a negative bound counts from the end,
  and the result is clipped to the axis.
\<close>

definition slice_bound :: "nat \<Rightarrow> int \<Rightarrow> nat" where
  "slice_bound n a = (if a < 0 then nat (max 0 (a + int n)) else min (nat a) n)"

text \<open>The assignment \<open>res[lo:hi, labels] = probs\<close>, with \<open>lo\<close> and \<open>hi\<close> already clipped.\<close>

definition assign_rows :: "'f cpt \<Rightarrow> nat \<Rightarrow> nat \<Rightarrow> nat list \<Rightarrow> 'f list \<Rightarrow> 'f cpt" where
  "assign_rows res lo hi labels probs =
     map (\<lambda>(r, row).
            if lo \<le> r \<and> r < hi
            then map (\<lambda>(l, cell). if l \<in> set labels then Some probs else cell) (enumerate 0 row)
            else row)
         (enumerate 0 res)"

text \<open>
  Floor division of two numpy 64-bit integers: the quotient is \<open>0\<close> (with a warning) on a
  zero divisor, and the one quotient out of range, that of the least integer by \<open>-1\<close>, wraps.
\<close>

definition np_floor_divide :: "int64 \<Rightarrow> int64 \<Rightarrow> int64" where
  "np_floor_divide a b = (if b = 0 then 0 else word_of_int (sint a div sint b))"

text \<open>
  \<open>seg_countdown_allow\<close> of the loop body: a numpy 64-bit integer, computed with wrap-around,
  and read as the signed integer it is when it bounds a slice.
\<close>

definition seg_countdown_allow :: "'a attrs_scheme \<Rightarrow> nat \<Rightarrow> int" where
  "seg_countdown_allow self label =
     (let seg_countdown_initial = seg_countdowns_initial self ! label;
          minimum = np_floor_divide (offset_start (seg_table self ! label))
                      (offset_step (seg_table self ! label))
      in sint (seg_countdown_initial - minimum + 1))"

text \<open>The loop over \<open>labels_with_maximum\<close>.\<close>

fun label_loop ::
  "'a attrs_scheme \<Rightarrow> 'f list \<Rightarrow> 'f list \<Rightarrow> nat list \<Rightarrow> 'f cpt \<Rightarrow> py_error + 'f cpt" where
  "label_loop self allow prevent [] res = Inr res"
| "label_loop self allow prevent (label # labels) res =
     (if length (seg_countdowns_initial self) \<le> label then Inl IndexError
      else
        let n = length res;
            res = assign_rows res (slice_bound n 1)
                    (slice_bound n (seg_countdown_allow self label)) [label] allow;
            res = assign_rows res (slice_bound n (seg_countdown_allow self label)) n
                    [label] prevent
        in label_loop self allow prevent labels res)"

text \<open>
  \<open>TableParamSpec.make_dense_cpt_segCountDown_seg_segTransition\<close>. \<open>empty\<close> raises
  \<open>ValueError\<close> on a negative dimension. An assignment to \<open>res[0, labels]\<close> raises
  \<open>IndexError\<close> when the table has no row \<open>0\<close> or when a label is not below \<open>num_segs\<close>; the
  labels are the row indices of \<open>seg_table\<close>, each of them in one of the two label arrays.
\<close>

definition make_dense_cpt_segCountDown_seg_segTransition ::
  "(int \<Rightarrow> int \<Rightarrow> 'f) \<Rightarrow> 'a attrs_scheme \<Rightarrow> py_error + ('f::{zero,one,minus,times}) cpt" where
  "make_dense_cpt_segCountDown_seg_segTransition true_div self =
     (if card_seg_countdown self < 0 \<or> num_segs self < 0 then Inl ValueError
      else
        case calc_prob_transition true_div self LEN_SEG_EXPECTED of
          Inl e \<Rightarrow> Inl e
        | Inr seg \<Rightarrow>
        case calc_prob_transition true_div self LEN_SUBSEG_EXPECTED of
          Inl e \<Rightarrow> Inl e
        | Inr subseg \<Rightarrow>
            let card' = nat (card_seg_countdown self);
                res = empty_cpt card' (nat (num_segs self));
                allow = probs_allow_transition seg subseg;
                prevent = probs_prevent_transition subseg;
                table = seg_table self;
                labels_with_maximum =
                  filter (\<lambda>l. offset_end (table ! l) \<noteq> 0) [0..<length table];
                labels_without_maximum =
                  filter (\<lambda>l. offset_end (table ! l) = 0) [0..<length table]
            in if card' = 0 \<or> nat (num_segs self) < length table then Inl IndexError
               else
                 let res = assign_rows res 0 1 labels_without_maximum allow;
                     res = assign_rows res 1 card' labels_without_maximum prevent;
                     res = assign_rows res 0 1 labels_with_maximum probs_force_transition
                 in label_loop self allow prevent labels_with_maximum res)"


section \<open>segway\_input\_master.py: the builders and the free-parameter count\<close>

text \<open>
  The distribution names and the flag \<open>USE_MFSDG\<close> are constants of \<open>_util\<close>, outside the
  repository: they are parameters of the model.
\<close>

record util_constants =
  DISTRIBUTION_NORM :: string
  DISTRIBUTION_ASINH_NORMAL :: string
  DISTRIBUTION_GAMMA :: string
  USE_MFSDG :: bool

definition DISTRIBUTIONS_LIKE_NORM :: "'a util_constants_scheme \<Rightarrow> string set" where
  "DISTRIBUTIONS_LIKE_NORM u = {DISTRIBUTION_NORM u, DISTRIBUTION_ASINH_NORMAL u}"

definition COVAR_TIED :: "'a util_constants_scheme \<Rightarrow> bool" where
  "COVAR_TIED u = (if USE_MFSDG u then False else True)"

text \<open>
  The further attributes that \<open>ParamSpec\<close> copies from the saver: the tracks (of which only
  the names are read, into \<open>track_names\<close>), the per-track arrays \<open>means\<close> and \<open>vars\<close>, and the
  number of mixture components.
\<close>

record 'v saver = attrs +
  tracks :: "string list"
  means :: "'v list"
  vars :: "'v list"
  num_mix_components :: int

text \<open>
  What the builders take from outside the repository, besides the constants: the builtin
  \<open>str\<close> on payload values; the rows of \<open>make_mean_data().tolist()\<close>, whose content comes from
  numpy and from the random state (row \<open>seg\<close> is the tiled means of segment \<open>seg\<close> plus noise);
  and the text \<open>str(round(1.0 / num_mix_components, ROUND_NDIGITS))\<close>.
\<close>

record 'v externals = util_constants +
  str_value :: "'v \<Rightarrow> string"
  mean_data_row :: "nat \<Rightarrow> 'v"
  weight_text :: string

text \<open>\<open>xs[i]\<close> for a non-negative index.\<close>

definition py_index :: "'a list \<Rightarrow> nat \<Rightarrow> py_error + 'a" where
  "py_index xs i = (if i < length xs then Inr (xs ! i) else Inl IndexError)"

text \<open>\<open>range(0, n, step)\<close> for a positive step.\<close>

definition py_range_step :: "nat \<Rightarrow> nat \<Rightarrow> nat list" where
  "py_range_step n step = map (\<lambda>k. k * step) [0..<(n + step - 1) div step]"

text \<open>
  The builders work on the module-level registry \<open>input_master\<close>: each takes the registry as
  it finds it and, when it returns, gives the registry as it leaves it. (The block of text a
  builder returns is not used by the count and is not part of the result; the registry that a
  raising builder leaves behind is not modelled.)

  A loop \<open>for i in range(n): obj = build(i); input_master.update(obj)\<close>, where building the
  object may read the registry and may raise:
\<close>

fun register_each ::
  "('v InputMaster \<Rightarrow> nat \<Rightarrow> py_error + 'v gmtk_obj) \<Rightarrow> nat list \<Rightarrow> 'v InputMaster \<Rightarrow>
   py_error + 'v InputMaster" where
  "register_each build [] im = Inr im"
| "register_each build (i # rest) im =
     (case build im i of
        Inl e \<Rightarrow> Inl e
      | Inr obj \<Rightarrow>
          (case update im (Single obj) of
             (Some e, im') \<Rightarrow> Inl e
           | (None, im') \<Rightarrow> register_each build rest im'))"

text \<open>The call of \<open>generate_gmtk_obj_names\<close> that every builder makes, for a kind \<open>obj\<close>.\<close>

definition names_for :: "('v, 'a) saver_scheme \<Rightarrow> string \<Rightarrow> py_error + string list" where
  "names_for self obj =
     generate_gmtk_obj_names obj (tracks self) (num_segs self) (num_subsegs self)
       (distribution self) (num_mix_components self)"

text \<open>
  \<open>ParamSpec.generate_name_collection\<close>. \<open>len(names) / num_tracks\<close> is a true division and
  raises on zero tracks; \<open>int\<close> of it is the integer quotient (the float quotient of two list
  lengths is exact, lengths being far below \<open>2^53\<close>). \<open>range\<close> raises \<open>ValueError\<close> on a zero
  step.
\<close>

definition generate_name_collection ::
  "('v, 'a) saver_scheme \<Rightarrow> 'v InputMaster \<Rightarrow> py_error + 'v InputMaster" where
  "generate_name_collection self im =
     (case names_for self ''col'' of
        Inl e \<Rightarrow> Inl e
      | Inr collection_names \<Rightarrow>
     (case names_for self ''mx_name'' of
        Inl e \<Rightarrow> Inl e
      | Inr names \<Rightarrow>
          let num_tracks = length (tracks self)
          in if num_tracks = 0 then Inl ZeroDivisionError
             else
               let len_name_group = length names div num_tracks
               in if len_name_group = 0 then Inl ValueError
                  else
                    let name_groups =
                          map (\<lambda>i. take len_name_group (drop i names))
                            (py_range_step (length names) len_name_group)
                    in case register_each
                              (\<lambda>im group_index.
                                 case py_index collection_names group_index of
                                   Inl e \<Rightarrow> Inl e
                                 | Inr name \<Rightarrow>
                                (case py_index name_groups group_index of
                                   Inl e \<Rightarrow> Inl e
                                 | Inr name_group \<Rightarrow>
                                     Inr (ONameCollection
                                            \<lparr>col_name = name, names_in_col = name_group\<rparr>)))
                              [0..<length name_groups] im of
                         Inl e \<Rightarrow> Inl e
                       | Inr im \<Rightarrow>
                           (case generate_name_col im of
                              Inl e \<Rightarrow> Inl e
                            | Inr spec \<Rightarrow> Inr im)))"

text \<open>
  \<open>ParamSpec.make_mean_data().tolist()\<close>. \<open>tile\<close> raises \<open>ValueError\<close> on a negative
  repetition; the tiled means, of shape \<open>(num_segs, num_subsegs, len(means))\<close>, and the tiled
  deviations times the noise, of shape \<open>(num_segs, num_subsegs, len(vars))\<close>, are added, which
  raises \<open>ValueError\<close> unless the two lengths are equal or one of them is \<open>1\<close>; the list has
  one item per segment.
\<close>

definition make_mean_data ::
  "('v, 'b) externals_scheme \<Rightarrow> ('v, 'a) saver_scheme \<Rightarrow> py_error + 'v list" where
  "make_mean_data ext self =
     (if num_segs self < 0 \<or> num_subsegs self < 0 then Inl ValueError
      else if length (means self) \<noteq> length (vars self) \<and> length (means self) \<noteq> 1 \<and>
              length (vars self) \<noteq> 1 then Inl ValueError
      else Inr (map (mean_data_row ext) [0..<nat (num_segs self)]))"

text \<open>\<open>ParamSpec.generate_mean_objects\<close>.\<close>

definition generate_mean_objects ::
  "('v, 'b) externals_scheme \<Rightarrow> ('v, 'a) saver_scheme \<Rightarrow> 'v InputMaster \<Rightarrow>
   py_error + 'v InputMaster" where
  "generate_mean_objects ext self im =
     (case names_for self ''mean'' of
        Inl e \<Rightarrow> Inl e
      | Inr names \<Rightarrow>
     (case make_mean_data ext self of
        Inl e \<Rightarrow> Inl e
      | Inr mean_data \<Rightarrow>
     (case register_each
             (\<lambda>im i.
                case py_index names i of
                  Inl e \<Rightarrow> Inl e
                | Inr name \<Rightarrow>
               (case py_index mean_data i of
                  Inl e \<Rightarrow> Inl e
                | Inr row \<Rightarrow> Inr (OMean \<lparr>mean_name = name, mean_values = [row]\<rparr>)))
             [0..<length names] im of
        Inl e \<Rightarrow> Inl e
      | Inr im \<Rightarrow>
          (case generate_mean (str_value ext) im of
             Inl e \<Rightarrow> Inl e
           | Inr spec \<Rightarrow> Inr im))))"

text \<open>\<open>ParamSpec.generate_covar_objects\<close>.\<close>

definition generate_covar_objects ::
  "('v, 'b) externals_scheme \<Rightarrow> ('v, 'a) saver_scheme \<Rightarrow> 'v InputMaster \<Rightarrow>
   py_error + 'v InputMaster" where
  "generate_covar_objects ext self im =
     (case (if \<not> COVAR_TIED ext then names_for self ''covar''
            else names_for self ''tied_covar'') of
        Inl e \<Rightarrow> Inl e
      | Inr names \<Rightarrow>
          let covars = vars self
          in case register_each
                    (\<lambda>im i.
                       case py_index names i of
                         Inl e \<Rightarrow> Inl e
                       | Inr name \<Rightarrow>
                      (case py_index covars i of
                         Inl e \<Rightarrow> Inl e
                       | Inr c \<Rightarrow> Inr (OCovar \<lparr>covar_name = name, covar_values = [c]\<rparr>)))
                    [0..<length names] im of
               Inl e \<Rightarrow> Inl e
             | Inr im \<Rightarrow>
                 (case generate_covar (str_value ext) im of
                    Inl e \<Rightarrow> Inl e
                  | Inr spec \<Rightarrow> Inr im))"

text \<open>
  \<open>ParamSpec.generate_mc_objects\<close>. A list times a non-positive int is the empty list. In the
  gamma branch the component keeps the default \<open>mean\<close> and \<open>covar\<close> of \<open>MC.__init__\<close>.
\<close>

definition generate_mc_objects ::
  "('v, 'b) externals_scheme \<Rightarrow> ('v, 'a) saver_scheme \<Rightarrow> 'v InputMaster \<Rightarrow>
   py_error + 'v InputMaster" where
  "generate_mc_objects ext self im =
     (case
        (if distribution self \<in> DISTRIBUTIONS_LIKE_NORM ext then
           (case names_for self (if USE_MFSDG ext then ''mc_missing'' else ''mc_diag'') of
              Inl e \<Rightarrow> Inl e
            | Inr names \<Rightarrow>
                let covars = concat (replicate (nat (num_segs self * num_subsegs self))
                                       (map snd (covar im)))
                in register_each
                     (\<lambda>im i.
                        case py_index names i of
                          Inl e \<Rightarrow> Inl e
                        | Inr name \<Rightarrow>
                       (case py_index (map snd (mean im)) i of
                          Inl e \<Rightarrow> Inl e
                        | Inr m \<Rightarrow>
                       (case py_index covars i of
                          Inl e \<Rightarrow> Inl e
                        | Inr c \<Rightarrow>
                            Inr (OMC \<lparr>mc_name = name, mc_dim = PInt 1,
                                      mc_type = PStr ''COMPONENT_TYPE_DIAG_GAUSSIAN'',
                                      mc_mean = m, mc_covar = c, mc_weights = [],
                                      mc_gamma_shape = '''', mc_gamma_scale = ''''\<rparr>))))
                     [0..<length names] im)
         else if distribution self = DISTRIBUTION_GAMMA ext then
           (case names_for self ''mc_gamma'' of
              Inl e \<Rightarrow> Inl e
            | Inr names \<Rightarrow>
           (case names_for self ''gammascale'' of
              Inl e \<Rightarrow> Inl e
            | Inr gamma_scale \<Rightarrow>
           (case names_for self ''gammashape'' of
              Inl e \<Rightarrow> Inl e
            | Inr gamma_shape \<Rightarrow>
                register_each
                  (\<lambda>im i.
                     case py_index names i of
                       Inl e \<Rightarrow> Inl e
                     | Inr name \<Rightarrow>
                    (case py_index gamma_shape i of
                       Inl e \<Rightarrow> Inl e
                     | Inr shape \<Rightarrow>
                    (case py_index gamma_scale i of
                       Inl e \<Rightarrow> Inl e
                     | Inr scale \<Rightarrow>
                         Inr (OMC \<lparr>mc_name = name, mc_dim = PInt 1,
                                   mc_type = PStr ''COMPONENT_TYPE_GAMMA'',
                                   mc_mean = \<lparr>mean_name = ''sample_mean'', mean_values = []\<rparr>,
                                   mc_covar = \<lparr>covar_name = ''sample_covar'',
                                               covar_values = []\<rparr>,
                                   mc_weights = [],
                                   mc_gamma_shape = shape, mc_gamma_scale = scale\<rparr>))))
                  [0..<length names] im)))
         else Inr im) of
        Inl e \<Rightarrow> Inl e
      | Inr im \<Rightarrow>
          (case generate_mc im of
             Inl e \<Rightarrow> Inl e
           | Inr spec \<Rightarrow> Inr im))"

text \<open>
  \<open>ParamSpec.generate_dpmf_objects\<close>. With one mixture component the single weight is the
  float \<open>1.0\<close>. Otherwise \<open>1.0 / num_mix_components\<close> raises on zero, \<open>dpmf_values\<close> is a string,
  and the first turn of the loop either fails to index it or hands one of its characters to
  \<open>DPMF\<close>, whose \<open>sum\<close> over a list holding a string raises \<open>TypeError\<close>.
\<close>

definition generate_dpmf_objects ::
  "('v::{zero,one,plus}, 'b) externals_scheme \<Rightarrow> ('v, 'a) saver_scheme \<Rightarrow> 'v InputMaster \<Rightarrow>
   py_error + 'v InputMaster" where
  "generate_dpmf_objects ext self im =
     (case names_for self ''dpmf'' of
        Inl e \<Rightarrow> Inl e
      | Inr names \<Rightarrow>
     (case
        (if num_mix_components self = 1 then
           (case py_index names 0 of
              Inl e \<Rightarrow> Inl e
            | Inr name \<Rightarrow>
           (case DPMF_init name [1] of
              Inl e \<Rightarrow> Inl e
            | Inr dpmf_obj \<Rightarrow>
               (case update im (Single (ODPMF dpmf_obj)) of
                  (Some e, im') \<Rightarrow> Inl e
                | (None, im') \<Rightarrow> Inr im')))
         else if num_mix_components self = 0 then Inl ZeroDivisionError
         else
           let dpmf_values = weight_text ext
           in if names = [] then Inr im
              else (case py_index dpmf_values 0 of
                      Inl e \<Rightarrow> Inl e
                    | Inr c \<Rightarrow> Inl TypeError)) of
        Inl e \<Rightarrow> Inl e
      | Inr im \<Rightarrow>
          (case generate_dpmf (str_value ext) im of
             Inl e \<Rightarrow> Inl e
           | Inr spec \<Rightarrow> Inr im)))"

text \<open>\<open>ParamSpec.generate_mx_objects\<close>.\<close>

definition generate_mx_objects ::
  "('v, 'a) saver_scheme \<Rightarrow> 'v InputMaster \<Rightarrow> py_error + 'v InputMaster" where
  "generate_mx_objects self im =
     (case names_for self ''mx'' of
        Inl e \<Rightarrow> Inl e
      | Inr names \<Rightarrow>
          let mc_obj = map snd (mc im);
              dpmf_obj = map snd (dpmf im)
          in if length dpmf_obj = 0 then Inl ZeroDivisionError
             else
               let multiple = length names div length dpmf_obj;
                   dpmf_obj = concat (replicate multiple dpmf_obj)
               in case register_each
                         (\<lambda>im i.
                            case py_index names i of
                              Inl e \<Rightarrow> Inl e
                            | Inr name \<Rightarrow>
                           (case py_index dpmf_obj i of
                              Inl e \<Rightarrow> Inl e
                            | Inr weights \<Rightarrow>
                           (case py_index mc_obj i of
                              Inl e \<Rightarrow> Inl e
                            | Inr component \<Rightarrow>
                               (case MX_init name (PInt 1) weights (Component component) of
                                  Inl e \<Rightarrow> Inl e
                                | Inr mx_obj \<Rightarrow> Inr (OMX mx_obj)))))
                         [0..<length names] im of
                    Inl e \<Rightarrow> Inl e
                  | Inr im \<Rightarrow>
                      (case generate_mx im of
                         Inl e \<Rightarrow> Inl e
                       | Inr spec \<Rightarrow> Inr im))"

text \<open>
  \<open>InputMasterSaver.make_mapping\<close>, run on the registry \<open>im\<close>. It returns its local
  variables; the model returns the one named \<open>num_free_params\<close>. The constructors
  \<open>ParamSpec(self)\<close>, \<open>DTParamSpec(self)\<close>, \<open>DenseCPTParamSpec(self)\<close>, \<open>RealMatParamSpec(self)\<close>,
  \<open>GammaRealMatParamSpec(self)\<close> and \<open>VirtualEvidenceSpec(self)\<close> only copy attributes.
\<close>

definition make_mapping ::
  "('v::{zero,one,plus}, 'b) externals_scheme \<Rightarrow> ('v, 'a) saver_scheme \<Rightarrow> 'v InputMaster \<Rightarrow>
   py_error + int" where
  "make_mapping ext self im =
     (let num_free_params = 0;
          fullnum_subsegs = num_segs self * num_subsegs self;
          num_free_params = num_free_params + fullnum_subsegs * (fullnum_subsegs - 1);
          num_free_params = num_free_params + fullnum_subsegs
      in case generate_name_collection self im of
           Inl e \<Rightarrow> Inl e
         | Inr im \<Rightarrow>
        (case
           (if distribution self \<in> DISTRIBUTIONS_LIKE_NORM ext then
              (case generate_mean_objects ext self im of
                 Inl e \<Rightarrow> Inl e
               | Inr im \<Rightarrow>
              (case generate_covar_objects ext self im of
                 Inl e \<Rightarrow> Inl e
               | Inr im \<Rightarrow>
              (case generate_mc_objects ext self im of
                 Inl e \<Rightarrow> Inl e
               | Inr im \<Rightarrow>
                   if COVAR_TIED ext
                   then Inr (num_free_params +
                               (fullnum_subsegs + 1) * num_track_groups self, im)
                   else Inr (num_free_params +
                               (fullnum_subsegs * 2) * num_track_groups self, im))))
            else if distribution self = DISTRIBUTION_GAMMA ext then
              (case generate_mc_objects ext self im of
                 Inl e \<Rightarrow> Inl e
               | Inr im \<Rightarrow>
                   Inr (num_free_params + (fullnum_subsegs * 2) * num_track_groups self, im))
            else Inl ValueError) of
           Inl e \<Rightarrow> Inl e
         | Inr (num_free_params, im) \<Rightarrow>
            (case generate_dpmf_objects ext self im of
               Inl e \<Rightarrow> Inl e
             | Inr im \<Rightarrow>
            (case generate_mx_objects self im of
               Inl e \<Rightarrow> Inl e
             | Inr im \<Rightarrow> Inr num_free_params))))"

section \<open>Loops that append are comprehensions\<close>

lemma fold_append_map:
  "fold (\<lambda>x acc. acc @ [f x]) xs acc = acc @ map f xs"
  by (induction xs arbitrary: acc) simp_all

lemma fold_append_concat:
  assumes "\<And>x acc. g x acc = acc @ h x"
  shows "fold g xs acc = acc @ concat (map h xs)"
  using assms by (induction xs arbitrary: acc) simp_all

lemma nth_concat_uniform:
  assumes "\<And>i. i < n \<Longrightarrow> length (f i) = m" and "i < n" and "j < m"
  shows "concat (map f [0..<n]) ! (i * m + j) = f i ! j"
  using assms
proof (induction n arbitrary: i)
  case 0
  then show ?case by simp
next
  case (Suc n)
  have len: "length (concat (map f [0..<n])) = n * m"
    using Suc.prems(1) by (induction n) simp_all
  show ?case
  proof (cases "i < n")
    case True
    then have "i * m + j < n * m"
    proof -
      have "i * m + j < i * m + m" using Suc.prems(3) by simp
      also have "\<dots> = Suc i * m" by simp
      also have "\<dots> \<le> n * m" using True by (intro mult_le_mono1) simp
      finally show ?thesis .
    qed
    then show ?thesis
      using Suc.IH [of i] Suc.prems True by (simp add: nth_append len)
  next
    case False
    then have "i = n" using Suc.prems(2) by simp
    then show ?thesis by (simp add: nth_append len)
  qed
qed

lemma length_concat_uniform:
  assumes "\<And>i. i < n \<Longrightarrow> length (f i) = m"
  shows "length (concat (map f [0..<n])) = n * m"
  using assms by (induction n) simp_all

lemma nth_concat_nested:
  assumes len: "\<And>i j. i < a \<Longrightarrow> j < b \<Longrightarrow> length (g i j) = c"
    and "i < a" and "j < b" and "k < c"
  shows "concat (map (\<lambda>i. concat (map (g i) [0..<b])) [0..<a]) ! ((i * b + j) * c + k) = g i j ! k"
proof -
  let ?f = "\<lambda>i. concat (map (g i) [0..<b])"
  have lenf: "\<And>i. i < a \<Longrightarrow> length (?f i) = b * c"
    using len by (intro length_concat_uniform) simp
  have "j * c + k < j * c + c" using assms(4) by simp
  also have "\<dots> = Suc j * c" by simp
  also have "\<dots> \<le> b * c" using assms(3) by (intro mult_le_mono1) simp
  finally have bound: "j * c + k < b * c" .
  have idx: "(i * b + j) * c + k = i * (b * c) + (j * c + k)"
    by (simp add: algebra_simps)
  have "concat (map ?f [0..<a]) ! (i * (b * c) + (j * c + k)) = ?f i ! (j * c + k)"
    by (rule nth_concat_uniform) (use lenf assms(2) bound in simp_all)
  also have "\<dots> = g i j ! k"
    by (rule nth_concat_uniform) (use len assms in simp_all)
  finally show ?thesis
    by (simp only: idx)
qed

lemma length_concat_nested:
  assumes len: "\<And>i j. i < a \<Longrightarrow> j < b \<Longrightarrow> length (g i j) = c"
  shows "length (concat (map (\<lambda>i. concat (map (g i) [0..<b])) [0..<a])) = a * b * c"
proof -
  have "\<And>i. i < a \<Longrightarrow> length (concat (map (g i) [0..<b])) = b * c"
    using len by (intro length_concat_uniform) simp
  then show ?thesis
    using length_concat_uniform [of a "\<lambda>i. concat (map (g i) [0..<b])" "b * c"] by simp
qed

lemma general_loops:
  "fold (\<lambda>i. fold (\<lambda>j. fold (\<lambda>name names. names @ [L i j name]) xs) B) A acc =
   acc @ concat (map (\<lambda>i. concat (map (\<lambda>j. map (L i j) xs) B)) A)"
proof -
  have mid: "fold (\<lambda>j. fold (\<lambda>name names. names @ [L i j name]) xs) B acc =
             acc @ concat (map (\<lambda>j. map (L i j) xs) B)" for i acc
    by (rule fold_append_concat) (rule fold_append_map)
  show ?thesis
    by (rule fold_append_concat) (rule mid)
qed

lemma mx_name_loops:
  "fold (\<lambda>name. fold (\<lambda>i. fold (\<lambda>j names. names @ [M i j name]) B) A) xs acc =
   acc @ concat (map (\<lambda>name. concat (map (\<lambda>i. map (\<lambda>j. M i j name) B) A)) xs)"
proof -
  have mid: "fold (\<lambda>i. fold (\<lambda>j names. names @ [M i j name]) B) A acc =
             acc @ concat (map (\<lambda>i. map (\<lambda>j. M i j name) B) A)" for name acc
    by (rule fold_append_concat) (rule fold_append_map)
  show ?thesis
    by (rule fold_append_concat) (rule mid)
qed

lemma names_general_branch:
  assumes "obj \<in> set allowed_types"
    and "obj \<notin> {''covar'', ''tied_covar'', ''col'', ''mx_name''}"
    and "\<not> (obj = ''dpmf'' \<and> nmc = 1)"
  shows "generate_gmtk_obj_names obj tn ns nss d nmc =
         Inr (concat (map (\<lambda>i. concat (map (\<lambda>j. map (general_line obj d i j) tn)
                [0..<nat nss])) [0..<nat ns]))"
  using assms by (auto simp add: generate_gmtk_obj_names_def general_loops py_range_def)

lemma names_general_nth:
  assumes "obj \<in> set allowed_types"
    and "obj \<notin> {''covar'', ''tied_covar'', ''col'', ''mx_name''}"
    and "\<not> (obj = ''dpmf'' \<and> nmc = 1)"
  shows "\<exists>names. generate_gmtk_obj_names obj tn ns nss d nmc = Inr names \<and>
           length names = nat ns * nat nss * length tn \<and>
           (\<forall>i<nat ns. \<forall>j<nat nss. \<forall>k<length tn.
              names ! ((i * nat nss + j) * length tn + k) = general_line obj d i j (tn ! k))"
proof -
  let ?g = "\<lambda>i j. map (general_line obj d i j) tn"
  let ?names = "concat (map (\<lambda>i. concat (map (?g i) [0..<nat nss])) [0..<nat ns])"
  have "generate_gmtk_obj_names obj tn ns nss d nmc = Inr ?names"
    using assms by (rule names_general_branch)
  moreover have "length ?names = nat ns * nat nss * length tn"
    by (rule length_concat_nested) simp
  moreover have "?names ! ((i * nat nss + j) * length tn + k) = general_line obj d i j (tn ! k)"
    if "i < nat ns" "j < nat nss" "k < length tn" for i j k
  proof -
    have "?names ! ((i * nat nss + j) * length tn + k) = ?g i j ! k"
      by (rule nth_concat_nested) (use that in simp_all)
    then show ?thesis using that by simp
  qed
  ultimately show ?thesis by blast
qed

lemma names_mx_name_nth:
  "\<exists>names. generate_gmtk_obj_names ''mx_name'' tn ns nss d nmc = Inr names \<and>
     length names = length tn * nat ns * nat nss \<and>
     (\<forall>k<length tn. \<forall>i<nat ns. \<forall>j<nat nss.
        names ! ((k * nat ns + i) * nat nss + j) =
        ''mx_seg'' @ str_nat i @ ''_subseg'' @ str_nat j @ ''_'' @ tn ! k)"
proof -
  let ?M = "\<lambda>i j name. ''mx_seg'' @ str_nat i @ ''_subseg'' @ str_nat j @ ''_'' @ name"
  let ?g = "\<lambda>k i. map (\<lambda>j. ?M i j (tn ! k)) [0..<nat nss]"
  let ?names = "concat (map (\<lambda>k. concat (map (?g k) [0..<nat ns])) [0..<length tn])"
  have "map (\<lambda>name. concat (map (\<lambda>i. map (\<lambda>j. ?M i j name) [0..<nat nss]) [0..<nat ns])) tn =
        map (\<lambda>k. concat (map (?g k) [0..<nat ns])) [0..<length tn]"
    by (rule nth_equalityI) simp_all
  then have "generate_gmtk_obj_names ''mx_name'' tn ns nss d nmc = Inr ?names"
    by (simp add: generate_gmtk_obj_names_def allowed_types_def mx_name_loops py_range_def)
  moreover have "length ?names = length tn * nat ns * nat nss"
    by (rule length_concat_nested) simp
  moreover have "?names ! ((k * nat ns + i) * nat nss + j) = ?M i j (tn ! k)"
    if "k < length tn" "i < nat ns" "j < nat nss" for i j k
  proof -
    have "?names ! ((k * nat ns + i) * nat nss + j) = ?g k i ! j"
      by (rule nth_concat_nested) (use that in simp_all)
    then show ?thesis using that by simp
  qed
  ultimately show ?thesis by blast
qed

section \<open>Properties of the name generator\<close>

text \<open>
  Claim C7. \<open>generate_gmtk_obj_names\<close> raises exactly when the object type is not one of the
  twelve tags mx, mc\_diag, mc\_gamma, mc\_missing, mean, covar, col, mx\_name, dpmf, gammascale,
  gammashape, tied\_covar; the exception is then \<open>ValueError\<close>; and for each of the twelve
  tags, whatever the track list and the counts, it returns a list of names.
\<close>

theorem generate_gmtk_obj_names_fails_iff:
  "((\<exists>e. generate_gmtk_obj_names obj tn ns nss d nmc = Inl e) \<longleftrightarrow>
      obj \<notin> {''mx'', ''mc_diag'', ''mc_gamma'', ''mc_missing'', ''mean'', ''covar'', ''col'',
              ''mx_name'', ''dpmf'', ''gammascale'', ''gammashape'', ''tied_covar''}) \<and>
   (obj \<notin> {''mx'', ''mc_diag'', ''mc_gamma'', ''mc_missing'', ''mean'', ''covar'', ''col'',
            ''mx_name'', ''dpmf'', ''gammascale'', ''gammashape'', ''tied_covar''} \<longrightarrow>
      generate_gmtk_obj_names obj tn ns nss d nmc = Inl ValueError) \<and>
   (obj \<in> {''mx'', ''mc_diag'', ''mc_gamma'', ''mc_missing'', ''mean'', ''covar'', ''col'',
            ''mx_name'', ''dpmf'', ''gammascale'', ''gammashape'', ''tied_covar''} \<longrightarrow>
      (\<exists>names. generate_gmtk_obj_names obj tn ns nss d nmc = Inr names))"
  by (simp add: generate_gmtk_obj_names_def allowed_types_def)

theorem generate_gmtk_obj_names_fails_iff_witness:
  "generate_gmtk_obj_names ''transition'' [''t1''] 2 1 ''norm'' 1 = Inl ValueError \<and>
   (\<exists>names. generate_gmtk_obj_names ''gammashape'' [''t1''] 2 1 ''norm'' 1 = Inr names)"
  using generate_gmtk_obj_names_fails_iff [of "''transition''" "[''t1'']" 2 1 "''norm''" 1]
        generate_gmtk_obj_names_fails_iff [of "''gammashape''" "[''t1'']" 2 1 "''norm''" 1]
  by simp

text \<open>
  Claim C2, as amended. The names returned follow the pattern and the iteration order of the
  object type: for covar and tied\_covar one name \<open>covar_<track>\<close> per track; for col one name
  \<open>collection_seg_<track>\<close> per track; for mx\_name the names \<open>mx_seg<i>_subseg<j>_<track>\<close>
  with the track outermost, then the segment, then the subsegment (so the name of track \<open>k\<close>,
  segment \<open>i\<close>, subsegment \<open>j\<close> is at position \<open>(k * num_segs + i) * num_subsegs + j\<close>);
  for dpmf with one mixture component the single name \<open>dpmf_always\<close>; for mc\_diag the names
  \<open>mc_<distribution>_seg<i>_subseg<j>_<track>\<close>, and for mx, mc\_gamma, mean, gammascale,
  gammashape and dpmf with more than one component the names \<open><kind>_seg<i>_subseg<j>_<track>\<close>,
  both with the segment outermost, then the subsegment, then the track (position
  \<open>(i * num_subsegs + j) * num_tracks + k\<close>).
\<close>

theorem generate_gmtk_obj_names_patterns:
  "(obj = ''covar'' \<or> obj = ''tied_covar'' \<longrightarrow>
      generate_gmtk_obj_names obj tn ns nss d nmc = Inr (map (\<lambda>t. ''covar_'' @ t) tn)) \<and>
   (obj = ''col'' \<longrightarrow>
      generate_gmtk_obj_names obj tn ns nss d nmc = Inr (map (\<lambda>t. ''collection_seg_'' @ t) tn)) \<and>
   (obj = ''mx_name'' \<longrightarrow>
      (\<exists>names. generate_gmtk_obj_names obj tn ns nss d nmc = Inr names \<and>
         length names = length tn * nat ns * nat nss \<and>
         (\<forall>k<length tn. \<forall>i<nat ns. \<forall>j<nat nss.
            names ! ((k * nat ns + i) * nat nss + j) =
            ''mx_seg'' @ str_nat i @ ''_subseg'' @ str_nat j @ ''_'' @ tn ! k))) \<and>
   (obj = ''dpmf'' \<and> nmc = 1 \<longrightarrow>
      generate_gmtk_obj_names obj tn ns nss d nmc = Inr [''dpmf_always'']) \<and>
   (obj = ''mc_diag'' \<longrightarrow>
      (\<exists>names. generate_gmtk_obj_names obj tn ns nss d nmc = Inr names \<and>
         length names = nat ns * nat nss * length tn \<and>
         (\<forall>i<nat ns. \<forall>j<nat nss. \<forall>k<length tn.
            names ! ((i * nat nss + j) * length tn + k) =
            ''mc_'' @ d @ ''_seg'' @ str_nat i @ ''_subseg'' @ str_nat j @ ''_'' @ tn ! k))) \<and>
   (obj \<in> {''mx'', ''mc_gamma'', ''mean'', ''gammascale'', ''gammashape''} \<or>
    obj = ''dpmf'' \<and> nmc \<noteq> 1 \<longrightarrow>
      (\<exists>names. generate_gmtk_obj_names obj tn ns nss d nmc = Inr names \<and>
         length names = nat ns * nat nss * length tn \<and>
         (\<forall>i<nat ns. \<forall>j<nat nss. \<forall>k<length tn.
            names ! ((i * nat nss + j) * length tn + k) =
            obj @ ''_seg'' @ str_nat i @ ''_subseg'' @ str_nat j @ ''_'' @ tn ! k)))"
proof (intro conjI impI)
  assume "obj = ''covar'' \<or> obj = ''tied_covar''"
  then show "generate_gmtk_obj_names obj tn ns nss d nmc = Inr (map (\<lambda>t. ''covar_'' @ t) tn)"
    by (auto simp add: generate_gmtk_obj_names_def allowed_types_def fold_append_map)
next
  assume "obj = ''col''"
  then show "generate_gmtk_obj_names obj tn ns nss d nmc =
             Inr (map (\<lambda>t. ''collection_seg_'' @ t) tn)"
    by (simp add: generate_gmtk_obj_names_def allowed_types_def fold_append_map)
next
  assume "obj = ''mx_name''"
  then show "\<exists>names. generate_gmtk_obj_names obj tn ns nss d nmc = Inr names \<and>
         length names = length tn * nat ns * nat nss \<and>
         (\<forall>k<length tn. \<forall>i<nat ns. \<forall>j<nat nss.
            names ! ((k * nat ns + i) * nat nss + j) =
            ''mx_seg'' @ str_nat i @ ''_subseg'' @ str_nat j @ ''_'' @ tn ! k)"
    using names_mx_name_nth [of tn ns nss d nmc] by simp
next
  assume "obj = ''dpmf'' \<and> nmc = 1"
  then show "generate_gmtk_obj_names obj tn ns nss d nmc = Inr [''dpmf_always'']"
    by (simp add: generate_gmtk_obj_names_def allowed_types_def)
next
  assume "obj = ''mc_diag''"
  then show "\<exists>names. generate_gmtk_obj_names obj tn ns nss d nmc = Inr names \<and>
         length names = nat ns * nat nss * length tn \<and>
         (\<forall>i<nat ns. \<forall>j<nat nss. \<forall>k<length tn.
            names ! ((i * nat nss + j) * length tn + k) =
            ''mc_'' @ d @ ''_seg'' @ str_nat i @ ''_subseg'' @ str_nat j @ ''_'' @ tn ! k)"
    using names_general_nth [of obj nmc tn ns nss d]
    by (simp add: allowed_types_def general_line_def)
next
  assume a: "obj \<in> {''mx'', ''mc_gamma'', ''mean'', ''gammascale'', ''gammashape''} \<or>
          obj = ''dpmf'' \<and> nmc \<noteq> 1"
  then have "general_line obj d i j t = obj @ ''_seg'' @ str_nat i @ ''_subseg'' @ str_nat j @ ''_'' @ t"
    for i j t
    by (auto simp add: general_line_def)
  moreover have "obj \<in> set allowed_types"
      "obj \<notin> {''covar'', ''tied_covar'', ''col'', ''mx_name''}" "\<not> (obj = ''dpmf'' \<and> nmc = 1)"
    using a by (auto simp add: allowed_types_def)
  ultimately show "\<exists>names. generate_gmtk_obj_names obj tn ns nss d nmc = Inr names \<and>
         length names = nat ns * nat nss * length tn \<and>
         (\<forall>i<nat ns. \<forall>j<nat nss. \<forall>k<length tn.
            names ! ((i * nat nss + j) * length tn + k) =
            obj @ ''_seg'' @ str_nat i @ ''_subseg'' @ str_nat j @ ''_'' @ tn ! k)"
    using names_general_nth [of obj nmc tn ns nss d] by simp
qed

theorem generate_gmtk_obj_names_patterns_witness:
  "generate_gmtk_obj_names ''covar'' [''gc'', ''len''] 2 3 ''norm'' 1 =
     Inr [''covar_gc'', ''covar_len''] \<and>
   generate_gmtk_obj_names ''col'' [''gc'', ''len''] 2 3 ''norm'' 1 =
     Inr [''collection_seg_gc'', ''collection_seg_len''] \<and>
   generate_gmtk_obj_names ''dpmf'' [''t''] 1 1 ''norm'' 1 = Inr [''dpmf_always''] \<and>
   (\<exists>names. generate_gmtk_obj_names ''mx_name'' [''gc'', ''len''] 2 3 ''norm'' 1 = Inr names \<and>
      length names = 12 \<and> names ! 7 = ''mx_seg0_subseg1_len'') \<and>
   (\<exists>names. generate_gmtk_obj_names ''mc_diag'' [''gc'', ''len''] 2 3 ''norm'' 1 = Inr names \<and>
      length names = 12 \<and> names ! 7 = ''mc_norm_seg1_subseg0_len'') \<and>
   (\<exists>names. generate_gmtk_obj_names ''mean'' [''gc'', ''len''] 2 3 ''norm'' 1 = Inr names \<and>
      length names = 12 \<and> names ! 7 = ''mean_seg1_subseg0_len'')"
proof -
  let ?tn = "[''gc'', ''len'']"
  let ?G = "\<lambda>obj. generate_gmtk_obj_names obj ?tn 2 3 ''norm'' 1"
  have digits: "str_nat 0 = ''0''" "str_nat (Suc 0) = ''1''"
    by (simp_all add: str_nat.simps digit_char_def)
  have "?G ''covar'' = Inr [''covar_gc'', ''covar_len'']"
    using generate_gmtk_obj_names_patterns [of "''covar''" ?tn 2 3 "''norm''" 1]
    by simp
  moreover have "?G ''col'' = Inr [''collection_seg_gc'', ''collection_seg_len'']"
    using generate_gmtk_obj_names_patterns [of "''col''" ?tn 2 3 "''norm''" 1]
    by simp
  moreover have "generate_gmtk_obj_names ''dpmf'' [''t''] 1 1 ''norm'' 1 = Inr [''dpmf_always'']"
    using generate_gmtk_obj_names_patterns [of "''dpmf''" "[''t'']" 1 1 "''norm''" 1]
    by simp
  moreover have "\<exists>names. ?G ''mx_name'' = Inr names \<and> length names = 12 \<and>
                   names ! 7 = ''mx_seg0_subseg1_len''"
  proof -
    have kind: "''mx_name'' = ''mx_name''"
      by simp
    have "\<exists>names. ?G ''mx_name'' = Inr names \<and>
            length names = length ?tn * nat 2 * nat 3 \<and>
            (\<forall>k<length ?tn. \<forall>i<nat 2. \<forall>j<nat 3.
               names ! ((k * nat 2 + i) * nat 3 + j) =
               ''mx_seg'' @ str_nat i @ ''_subseg'' @ str_nat j @ ''_'' @ ?tn ! k)"
      by (rule mp [OF generate_gmtk_obj_names_patterns
            [of "''mx_name''" ?tn 2 3 "''norm''" 1, THEN conjunct2, THEN conjunct2, THEN conjunct1] kind])
    then show ?thesis
    proof (elim exE conjE)
      fix names
      assume n: "?G ''mx_name'' = Inr names"
        and len: "length names = length ?tn * nat 2 * nat 3"
        and nth: "\<forall>k<length ?tn. \<forall>i<nat 2. \<forall>j<nat 3.
               names ! ((k * nat 2 + i) * nat 3 + j) =
               ''mx_seg'' @ str_nat i @ ''_subseg'' @ str_nat j @ ''_'' @ ?tn ! k"
      have "names ! 7 = ''mx_seg0_subseg1_len''"
        using nth [rule_format, of 1 0 1] by (simp add: digits)
      with n len show ?thesis by (intro exI [of _ names]) simp
    qed
  qed
  moreover have "\<exists>names. ?G ''mc_diag'' = Inr names \<and> length names = 12 \<and>
                   names ! 7 = ''mc_norm_seg1_subseg0_len''"
  proof -
    have kind: "''mc_diag'' = ''mc_diag''"
      by simp
    have "\<exists>names. ?G ''mc_diag'' = Inr names \<and>
            length names = nat 2 * nat 3 * length ?tn \<and>
            (\<forall>i<nat 2. \<forall>j<nat 3. \<forall>k<length ?tn.
               names ! ((i * nat 3 + j) * length ?tn + k) =
               ''mc_'' @ ''norm'' @ ''_seg'' @ str_nat i @ ''_subseg'' @ str_nat j @ ''_'' @ ?tn ! k)"
      by (rule mp [OF generate_gmtk_obj_names_patterns
            [of "''mc_diag''" ?tn 2 3 "''norm''" 1, THEN conjunct2, THEN conjunct2, THEN conjunct2, THEN conjunct2, THEN conjunct1] kind])
    then show ?thesis
    proof (elim exE conjE)
      fix names
      assume n: "?G ''mc_diag'' = Inr names"
        and len: "length names = nat 2 * nat 3 * length ?tn"
        and nth: "\<forall>i<nat 2. \<forall>j<nat 3. \<forall>k<length ?tn.
               names ! ((i * nat 3 + j) * length ?tn + k) =
               ''mc_'' @ ''norm'' @ ''_seg'' @ str_nat i @ ''_subseg'' @ str_nat j @ ''_'' @ ?tn ! k"
      have "names ! 7 = ''mc_norm_seg1_subseg0_len''"
        using nth [rule_format, of 1 0 1] by (simp add: digits)
      with n len show ?thesis by (intro exI [of _ names]) simp
    qed
  qed
  moreover have "\<exists>names. ?G ''mean'' = Inr names \<and> length names = 12 \<and>
                   names ! 7 = ''mean_seg1_subseg0_len''"
  proof -
    have kind: "''mean'' \<in> {''mx'', ''mc_gamma'', ''mean'', ''gammascale'', ''gammashape''} \<or>
                ''mean'' = ''dpmf'' \<and> (1::int) \<noteq> 1"
      by simp
    have "\<exists>names. ?G ''mean'' = Inr names \<and>
            length names = nat 2 * nat 3 * length ?tn \<and>
            (\<forall>i<nat 2. \<forall>j<nat 3. \<forall>k<length ?tn.
               names ! ((i * nat 3 + j) * length ?tn + k) =
               ''mean'' @ ''_seg'' @ str_nat i @ ''_subseg'' @ str_nat j @ ''_'' @ ?tn ! k)"
      by (rule mp [OF generate_gmtk_obj_names_patterns
            [of "''mean''" ?tn 2 3 "''norm''" 1, THEN conjunct2, THEN conjunct2, THEN conjunct2, THEN conjunct2, THEN conjunct2] kind])
    then show ?thesis
    proof (elim exE conjE)
      fix names
      assume n: "?G ''mean'' = Inr names"
        and len: "length names = nat 2 * nat 3 * length ?tn"
        and nth: "\<forall>i<nat 2. \<forall>j<nat 3. \<forall>k<length ?tn.
               names ! ((i * nat 3 + j) * length ?tn + k) =
               ''mean'' @ ''_seg'' @ str_nat i @ ''_subseg'' @ str_nat j @ ''_'' @ ?tn ! k"
      have "names ! 7 = ''mean_seg1_subseg0_len''"
        using nth [rule_format, of 1 0 1] by (simp add: digits)
      with n len show ?thesis by (intro exI [of _ names]) simp
    qed
  qed
  ultimately show ?thesis by blast
qed

text \<open>
  For mc\_missing the last branch appends the empty string, not a name of the pattern
  \<open><kind>_seg<i>_subseg<j>_<track>\<close>.
\<close>

theorem generate_gmtk_obj_names_mc_missing_counterexample:
  "generate_gmtk_obj_names ''mc_missing'' [''t1''] 1 1 ''norm'' 1 = Inr [''''] \<and>
   generate_gmtk_obj_names ''mc_missing'' [''t1''] 1 1 ''norm'' 1 \<noteq>
     Inr [''mc_missing_seg0_subseg0_t1'']"
  by (simp add: generate_gmtk_obj_names_def allowed_types_def py_range_def general_line_def)

section \<open>Properties of the wire objects and of the registry\<close>

lemma foldl_plus_sum_list:
  fixes a :: "'a::monoid_add"
  shows "foldl (+) a xs = a + sum_list xs"
  by (induction xs arbitrary: a) (simp_all add: add.assoc)

lemma py_sum_exact:
  fixes xs :: "'a::monoid_add list"
  shows "py_sum xs = sum_list xs"
  by (simp add: py_sum_def foldl_plus_sum_list)

lemma collect_Inr_iff: "collect rs = Inr xs \<longleftrightarrow> rs = map Inr xs"
proof (induction rs arbitrary: xs)
  case Nil
  then show ?case by auto
next
  case (Cons r rs)
  show ?case
  proof (cases r)
    case (Inl e)
    then show ?thesis by auto
  next
    case (Inr x)
    then show ?thesis
      using Cons.IH by (cases "collect rs") (auto simp add: Cons_eq_map_conv)
  qed
qed

lemma generate_kind_empty: "generate_kind header gen [] = Inr EmptyList"
  by (simp add: generate_kind_def)

lemma setitem_keys:
  "map fst (setitem d k v) = (if k \<in> fst ` set d then map fst d else map fst d @ [k])"
  by (induction d) auto

lemma setitem_absent: "k \<notin> fst ` set d \<Longrightarrow> setitem d k v = d @ [(k, v)]"
  by (induction d) auto

lemma map_of_setitem: "map_of (setitem d k v) k = Some v"
  by (induction d) auto

lemma length_setitem: "length d \<le> length (setitem d k v)"
  by (induction d) auto

lemma setitem_nth_other:
  "i < length d \<Longrightarrow> fst (d ! i) \<noteq> k \<Longrightarrow> setitem d k v ! i = d ! i"
proof (induction d arbitrary: i)
  case Nil
  then show ?case by simp
next
  case (Cons p ps)
  then show ?case by (cases i) auto
qed

lemma map_setitem:
  "map (\<lambda>(n, obj). (n, f obj)) (setitem d k v) = setitem (map (\<lambda>(n, obj). (n, f obj)) d) k (f v)"
  by (induction d) (auto simp add: case_prod_beta)

lemma slot_register_same:
  assumes "kind_of obj = Some k" and "name_of obj = Some n"
  shows "slot k (register self obj) = setitem (slot k self) n obj"
  using assms by (cases obj) (auto simp add: map_setitem)

lemma slot_register_other:
  assumes "kind_of obj = Some k" and "k' \<noteq> k"
  shows "slot k' (register self obj) = slot k' self"
  using assms by (cases obj; cases k') auto

lemma check_allowed_None: "check_allowed objs = None \<longleftrightarrow> (\<forall>obj\<in>set objs. is_allowed obj)"
  by (induction objs) auto

lemma check_allowed_Some:
  "\<exists>obj\<in>set objs. \<not> is_allowed obj \<Longrightarrow> check_allowed objs = Some ValueError"
  by (induction objs) auto

text \<open>
  Claim C5. For every name and every list of values, constructing a DPMF succeeds if and only
  if the values sum (as the builtin \<open>sum\<close> adds them) to exactly \<open>1.0\<close>; otherwise the
  constructor raises \<open>ValueError\<close>. When it succeeds the object holds the name and the values.
\<close>

theorem DPMF_init_succeeds_iff:
  "((\<exists>obj. DPMF_init name vals = Inr obj) \<longleftrightarrow> py_sum vals = 1) \<and>
   (py_sum vals \<noteq> 1 \<longrightarrow> DPMF_init name vals = Inl ValueError) \<and>
   (py_sum vals = 1 \<longrightarrow> DPMF_init name vals = Inr \<lparr>dpmf_name = name, dpmf_values = vals\<rparr>)"
proof -
  have "fold (\<lambda>val dpmf_values. dpmf_values @ [val]) vals [] = vals"
    using fold_append_map [of "\<lambda>x. x" vals "[]"] by simp
  then show ?thesis
    by (simp add: DPMF_init_def)
qed

text \<open>The two constructions named by the claim: \<open>[0.5, 0.5]\<close> succeeds, \<open>[0.4, 0.5]\<close> fails.\<close>

theorem DPMF_init_succeeds_iff_witness:
  "DPMF_init ''dpmf_always'' [1 / 2, 1 / 2 :: real] =
     Inr \<lparr>dpmf_name = ''dpmf_always'', dpmf_values = [1 / 2, 1 / 2]\<rparr> \<and>
   DPMF_init ''dpmf_always'' [2 / 5, 1 / 2 :: real] = Inl ValueError"
  using DPMF_init_succeeds_iff [of "''dpmf_always''" "[1 / 2, 1 / 2 :: real]"]
        DPMF_init_succeeds_iff [of "''dpmf_always''" "[2 / 5, 1 / 2 :: real]"]
  by (simp add: py_sum_def)

text \<open>
  Claim C6. For every name, dimension, DPMF object and components argument (a single
  component counting as a list of one), constructing an MX raises if and only if the number of
  values of the DPMF differs from the number of components, and the exception is
  \<open>ValueError\<close>.
\<close>

theorem MX_init_fails_iff:
  "((\<exists>e. MX_init name dim' weights components = Inl e) \<longleftrightarrow>
      length (dpmf_values weights) \<noteq>
        (case components of Component c \<Rightarrow> 1 | Components cs \<Rightarrow> length cs)) \<and>
   (MX_init name dim' weights components = Inl ValueError \<longleftrightarrow>
      length (dpmf_values weights) \<noteq>
        (case components of Component c \<Rightarrow> 1 | Components cs \<Rightarrow> length cs))"
  by (cases components) (simp_all add: MX_init_def)

text \<open>An MX whose DPMF has two values and whose component list has one entry.\<close>

theorem MX_init_fails_iff_witness:
  "MX_init ''mx_seg0_subseg0_t1'' (PInt 1)
     \<lparr>dpmf_name = ''dpmf_always'', dpmf_values = [1 / 2, 1 / 2 :: real]\<rparr>
     (Components [\<lparr>mc_name = ''mc_norm_seg0_subseg0_t1'', mc_dim = PInt 1,
                    mc_type = PStr MC_TYPE_DIAG,
                    mc_mean = \<lparr>mean_name = ''mean_seg0_subseg0_t1'', mean_values = [0]\<rparr>,
                    mc_covar = \<lparr>covar_name = ''covar_t1'', covar_values = [1]\<rparr>,
                    mc_weights = [], mc_gamma_shape = '''', mc_gamma_scale = ''''\<rparr>])
   = Inl ValueError"
  using MX_init_fails_iff [of "''mx_seg0_subseg0_t1''" "PInt 1"
     "\<lparr>dpmf_name = ''dpmf_always'', dpmf_values = [1 / 2, 1 / 2 :: real]\<rparr>"
     "Components [\<lparr>mc_name = ''mc_norm_seg0_subseg0_t1'', mc_dim = PInt 1,
                    mc_type = PStr MC_TYPE_DIAG,
                    mc_mean = \<lparr>mean_name = ''mean_seg0_subseg0_t1'', mean_values = [0]\<rparr>,
                    mc_covar = \<lparr>covar_name = ''covar_t1'', covar_values = [1]\<rparr>,
                    mc_weights = [], mc_gamma_shape = '''', mc_gamma_scale = ''''\<rparr>]"]
  by simp

text \<open>
  Claim C8. Registering a wire object of kind \<open>k\<close> and name \<open>n\<close> succeeds and stores the
  object under \<open>n\<close> in the mapping of kind \<open>k\<close>. When \<open>n\<close> is already a key of that mapping the
  order of its keys is unchanged (the name keeps its position); when it is not, the item is
  appended at the end. Every item of the mapping with another name keeps its position and its
  value, so its rendering index is unchanged, and the mappings of the other kinds are
  untouched.
\<close>

theorem update_keeps_position:
  assumes "kind_of obj = Some k" and "name_of obj = Some n"
  shows "fst (update self (Single obj)) = None \<and>
         map_of (slot k (snd (update self (Single obj)))) n = Some obj \<and>
         (n \<in> fst ` set (slot k self) \<longrightarrow>
            map fst (slot k (snd (update self (Single obj)))) = map fst (slot k self)) \<and>
         (n \<notin> fst ` set (slot k self) \<longrightarrow>
            slot k (snd (update self (Single obj))) = slot k self @ [(n, obj)]) \<and>
         (\<forall>i<length (slot k self). fst (slot k self ! i) \<noteq> n \<longrightarrow>
            slot k (snd (update self (Single obj))) ! i = slot k self ! i) \<and>
         (\<forall>k'. k' \<noteq> k \<longrightarrow> slot k' (snd (update self (Single obj))) = slot k' self)"
proof -
  have ok: "is_allowed obj"
    using assms(1) by (cases obj) simp_all
  then have upd: "update self (Single obj) = (None, register self obj)"
    by (simp add: update_def)
  have same: "slot k (register self obj) = setitem (slot k self) n obj"
    using assms by (rule slot_register_same)
  show ?thesis
    unfolding upd fst_conv snd_conv same
    using slot_register_other [OF assms(1)]
    by (simp add: map_of_setitem setitem_keys setitem_absent setitem_nth_other)
qed

theorem update_keeps_position_witness:
  "snd (update \<lparr>mean = [(''a'', \<lparr>mean_name = ''a'', mean_values = [1 :: int]\<rparr>),
                        (''b'', \<lparr>mean_name = ''b'', mean_values = [2]\<rparr>)],
                covar = [], dense = [], deterministic = [], dpmf = [], mc = [], mx = [],
                name_collection = []\<rparr>
          (Single (OMean \<lparr>mean_name = ''a'', mean_values = [3]\<rparr>))) =
     \<lparr>mean = [(''a'', \<lparr>mean_name = ''a'', mean_values = [3]\<rparr>),
              (''b'', \<lparr>mean_name = ''b'', mean_values = [2]\<rparr>)],
      covar = [], dense = [], deterministic = [], dpmf = [], mc = [], mx = [],
      name_collection = []\<rparr> \<and>
   snd (update \<lparr>mean = [(''a'', \<lparr>mean_name = ''a'', mean_values = [1 :: int]\<rparr>),
                        (''b'', \<lparr>mean_name = ''b'', mean_values = [2]\<rparr>)],
                covar = [], dense = [], deterministic = [], dpmf = [], mc = [], mx = [],
                name_collection = []\<rparr>
          (Single (OMean \<lparr>mean_name = ''c'', mean_values = [3]\<rparr>))) =
     \<lparr>mean = [(''a'', \<lparr>mean_name = ''a'', mean_values = [1]\<rparr>),
              (''b'', \<lparr>mean_name = ''b'', mean_values = [2]\<rparr>),
              (''c'', \<lparr>mean_name = ''c'', mean_values = [3]\<rparr>)],
      covar = [], dense = [], deterministic = [], dpmf = [], mc = [], mx = [],
      name_collection = []\<rparr>"
  using update_keeps_position [of "OMean \<lparr>mean_name = ''a'', mean_values = [3 :: int]\<rparr>" KMean "''a''"
          "\<lparr>mean = [(''a'', \<lparr>mean_name = ''a'', mean_values = [1 :: int]\<rparr>),
                    (''b'', \<lparr>mean_name = ''b'', mean_values = [2]\<rparr>)],
            covar = [], dense = [], deterministic = [], dpmf = [], mc = [], mx = [],
            name_collection = []\<rparr>"]
        update_keeps_position [of "OMean \<lparr>mean_name = ''c'', mean_values = [3 :: int]\<rparr>" KMean "''c''"
          "\<lparr>mean = [(''a'', \<lparr>mean_name = ''a'', mean_values = [1 :: int]\<rparr>),
                    (''b'', \<lparr>mean_name = ''b'', mean_values = [2]\<rparr>)],
            covar = [], dense = [], deterministic = [], dpmf = [], mc = [], mx = [],
            name_collection = []\<rparr>"]
  by (simp add: update_def)

text \<open>
  Claim C10. \<open>update\<close> takes a single object or a list of objects, a single object being
  treated as the list of that object. If any element of the list is not of one of the eight
  wire-object types, the call raises \<open>ValueError\<close> and leaves the registry as it was, wherever
  in the list that element stands; if every element is of an allowed type, the call does not
  raise and registers the elements in order.
\<close>

theorem update_all_or_nothing:
  "update self (Single obj) = update self (Many [obj]) \<and>
   (is_allowed obj \<longleftrightarrow> kind_of obj \<noteq> None) \<and>
   ((\<exists>obj\<in>set objs. \<not> is_allowed obj) \<longrightarrow> update self (Many objs) = (Some ValueError, self)) \<and>
   ((\<forall>obj\<in>set objs. is_allowed obj) \<longrightarrow>
      update self (Many objs) = (None, fold (\<lambda>obj self. register self obj) objs self))"
proof (intro conjI impI)
  show "update self (Single obj) = update self (Many [obj])"
    by (simp add: update_def)
  show "is_allowed obj \<longleftrightarrow> kind_of obj \<noteq> None"
    by (cases obj) simp_all
next
  assume "\<exists>obj\<in>set objs. \<not> is_allowed obj"
  then have "check_allowed objs = Some ValueError"
    by (rule check_allowed_Some)
  then show "update self (Many objs) = (Some ValueError, self)"
    by (simp add: update_def)
next
  assume "\<forall>obj\<in>set objs. is_allowed obj"
  then have "check_allowed objs = None"
    by (simp add: check_allowed_None)
  then show "update self (Many objs) = (None, fold (\<lambda>obj self. register self obj) objs self)"
    by (simp add: update_def)
qed

theorem update_all_or_nothing_witness:
  "update \<lparr>mean = [(''a'', \<lparr>mean_name = ''a'', mean_values = [1 :: int]\<rparr>)],
            covar = [], dense = [], deterministic = [], dpmf = [], mc = [], mx = [],
            name_collection = []\<rparr>
     (Many [OMean \<lparr>mean_name = ''b'', mean_values = [2]\<rparr>, OOther]) =
   (Some ValueError,
    \<lparr>mean = [(''a'', \<lparr>mean_name = ''a'', mean_values = [1]\<rparr>)],
     covar = [], dense = [], deterministic = [], dpmf = [], mc = [], mx = [],
     name_collection = []\<rparr>) \<and>
   update \<lparr>mean = [(''a'', \<lparr>mean_name = ''a'', mean_values = [1 :: int]\<rparr>)],
            covar = [], dense = [], deterministic = [], dpmf = [], mc = [], mx = [],
            name_collection = []\<rparr>
     (Many [OMean \<lparr>mean_name = ''b'', mean_values = [2]\<rparr>,
            OCovar \<lparr>covar_name = ''c'', covar_values = [3]\<rparr>]) =
   (None,
    \<lparr>mean = [(''a'', \<lparr>mean_name = ''a'', mean_values = [1]\<rparr>),
             (''b'', \<lparr>mean_name = ''b'', mean_values = [2]\<rparr>)],
     covar = [(''c'', \<lparr>covar_name = ''c'', covar_values = [3]\<rparr>)],
     dense = [], deterministic = [], dpmf = [], mc = [], mx = [],
     name_collection = []\<rparr>)"
  using update_all_or_nothing [of
          "\<lparr>mean = [(''a'', \<lparr>mean_name = ''a'', mean_values = [1 :: int]\<rparr>)],
            covar = [], dense = [], deterministic = [], dpmf = [], mc = [], mx = [],
            name_collection = []\<rparr>" OOther
          "[OMean \<lparr>mean_name = ''b'', mean_values = [2]\<rparr>, OOther]"]
        update_all_or_nothing [of
          "\<lparr>mean = [(''a'', \<lparr>mean_name = ''a'', mean_values = [1 :: int]\<rparr>)],
            covar = [], dense = [], deterministic = [], dpmf = [], mc = [], mx = [],
            name_collection = []\<rparr>" OOther
          "[OMean \<lparr>mean_name = ''b'', mean_values = [2]\<rparr>,
            OCovar \<lparr>covar_name = ''c'', covar_values = [3]\<rparr>]"]
  by simp

text \<open>
  Claim C3. Whenever the full-document rendering returns, the document is the concatenation
  of the eight per-kind blocks in the order name collections, deterministic CPTs, dense CPTs,
  means, covariances, DPMFs, mixture components, mixtures (and it returns exactly when each
  per-kind method does). A kind whose mapping holds no object yields the empty list, whose
  contribution to the document is the empty string: no header line, no count line, no text.
\<close>

theorem InputMaster_str_order:
  "(InputMaster_str sv self = Inr doc \<longleftrightarrow>
      (\<exists>b1 b2 b3 b4 b5 b6 b7 b8.
         generate_name_col self = Inr b1 \<and> generate_deterministic self = Inr b2 \<and>
         generate_dense sv self = Inr b3 \<and> generate_mean sv self = Inr b4 \<and>
         generate_covar sv self = Inr b5 \<and> generate_dpmf sv self = Inr b6 \<and>
         generate_mc self = Inr b7 \<and> generate_mx self = Inr b8 \<and>
         doc = join_block b1 @ join_block b2 @ join_block b3 @ join_block b4 @
               join_block b5 @ join_block b6 @ join_block b7 @ join_block b8)) \<and>
   (name_collection self = [] \<longrightarrow> generate_name_col self = Inr EmptyList) \<and>
   (deterministic self = [] \<longrightarrow> generate_deterministic self = Inr EmptyList) \<and>
   (dense self = [] \<longrightarrow> generate_dense sv self = Inr EmptyList) \<and>
   (mean self = [] \<longrightarrow> generate_mean sv self = Inr EmptyList) \<and>
   (covar self = [] \<longrightarrow> generate_covar sv self = Inr EmptyList) \<and>
   (dpmf self = [] \<longrightarrow> generate_dpmf sv self = Inr EmptyList) \<and>
   (mc self = [] \<longrightarrow> generate_mc self = Inr EmptyList) \<and>
   (mx self = [] \<longrightarrow> generate_mx self = Inr EmptyList) \<and>
   join_block EmptyList = ''''"
proof -
  let ?gens = "[generate_name_col self, generate_deterministic self, generate_dense sv self,
                generate_mean sv self, generate_covar sv self, generate_dpmf sv self,
                generate_mc self, generate_mx self]"
  have joined: "concat (fold (\<lambda>obj s. s @ [join_block obj]) bs []) = concat (map join_block bs)"
    for bs
    using fold_append_map [of join_block bs "[]"] by simp
  have str: "InputMaster_str sv self = Inr doc \<longleftrightarrow>
             (\<exists>bs. collect ?gens = Inr bs \<and> doc = concat (map join_block bs))"
    by (cases "collect ?gens") (auto simp add: InputMaster_str_def joined)
  have "InputMaster_str sv self = Inr doc \<longleftrightarrow>
      (\<exists>b1 b2 b3 b4 b5 b6 b7 b8.
         generate_name_col self = Inr b1 \<and> generate_deterministic self = Inr b2 \<and>
         generate_dense sv self = Inr b3 \<and> generate_mean sv self = Inr b4 \<and>
         generate_covar sv self = Inr b5 \<and> generate_dpmf sv self = Inr b6 \<and>
         generate_mc self = Inr b7 \<and> generate_mx self = Inr b8 \<and>
         doc = join_block b1 @ join_block b2 @ join_block b3 @ join_block b4 @
               join_block b5 @ join_block b6 @ join_block b7 @ join_block b8)"
    unfolding str collect_Inr_iff
    by (auto simp add: Cons_eq_map_conv)
  then show ?thesis
    by (simp add: generate_name_col_def generate_deterministic_def generate_dense_def
        generate_mean_def generate_covar_def generate_dpmf_def generate_mc_def generate_mx_def
        generate_kind_empty)
qed

text \<open>
  A registry holding two means and one covariance and nothing else: the document is the
  block of the means followed by the block of the covariances.
\<close>

theorem InputMaster_str_order_witness:
  "InputMaster_str (\<lambda>v. v)
     \<lparr>mean = [(''m0'', \<lparr>mean_name = ''m0'', mean_values = [''0.5'']\<rparr>),
              (''m1'', \<lparr>mean_name = ''m1'', mean_values = [''-1.25'']\<rparr>)],
      covar = [(''c0'', \<lparr>covar_name = ''c0'', covar_values = [''2.0'']\<rparr>)],
      dense = [], deterministic = [], dpmf = [], mc = [], mx = [], name_collection = []\<rparr> =
   Inr (''MEAN_IN_FILE inline'' @ NL @ ''2'' @ NL @ NL @ ''0 m0 1 0.5 '' @ NL @ NL @
        ''1 m1 1 -1.25 '' @ NL @
        ''COVAR_IN_FILE inline'' @ NL @ ''1'' @ NL @ NL @ ''0 c0 1 2.0 '' @ NL)"
proof -
  let ?self = "\<lparr>mean = [(''m0'', \<lparr>mean_name = ''m0'', mean_values = [''0.5'']\<rparr>),
                        (''m1'', \<lparr>mean_name = ''m1'', mean_values = [''-1.25'']\<rparr>)],
                covar = [(''c0'', \<lparr>covar_name = ''c0'', covar_values = [''2.0'']\<rparr>)],
                dense = [], deterministic = [], dpmf = [], mc = [], mx = [],
                name_collection = []\<rparr>"
  let ?means = "''MEAN_IN_FILE inline'' @ NL @ ''2'' @ NL @ NL @ ''0 m0 1 0.5 '' @ NL @ NL @
                ''1 m1 1 -1.25 '' @ NL"
  let ?covars = "''COVAR_IN_FILE inline'' @ NL @ ''1'' @ NL @ NL @ ''0 c0 1 2.0 '' @ NL"
  have digits: "str_nat 0 = ''0''" "str_nat (Suc 0) = ''1''" "str_nat (Suc (Suc 0)) = ''2''"
    by (simp_all add: str_nat.simps digit_char_def)
  have range2: "[0..<2] = [0, 1]"
    by (simp add: upt_rec)
  have m: "generate_mean (\<lambda>v. v) ?self = Inr (Text ?means)"
    by (simp add: generate_mean_def generate_kind_def Mean_generate_def digits range2)
  have c: "generate_covar (\<lambda>v. v) ?self = Inr (Text ?covars)"
    by (simp add: generate_covar_def generate_kind_def Covar_generate_def digits)
  have empties: "generate_name_col ?self = Inr EmptyList"
      "generate_deterministic ?self = Inr EmptyList"
      "generate_dense (\<lambda>v. v) ?self = Inr EmptyList"
      "generate_dpmf (\<lambda>v. v) ?self = Inr EmptyList"
      "generate_mc ?self = Inr EmptyList" "generate_mx ?self = Inr EmptyList"
    using InputMaster_str_order [of "\<lambda>v. v" ?self "[]"] by simp_all
  show ?thesis
    using InputMaster_str_order [of "\<lambda>v. v" ?self "?means @ ?covars", THEN conjunct1]
    by (simp add: m c empties)
qed

section \<open>Properties of the transition tables\<close>

lemma set_diagonal:
  assumes "k \<le> length res"
  shows "fold (\<lambda>i r. r[i := (r ! i)[i := d]]) [0..<k] res =
         map (\<lambda>i. if i < k then (res ! i)[i := d] else res ! i) [0..<length res]"
  using assms
proof (induction k)
  case 0
  then show ?case by (simp add: map_nth)
next
  case (Suc k)
  let ?r = "map (\<lambda>i. if i < k then (res ! i)[i := d] else res ! i) [0..<length res]"
  have "fold (\<lambda>i r. r[i := (r ! i)[i := d]]) [0..<Suc k] res = ?r[k := (?r ! k)[k := d]]"
    using Suc by simp
  also have "\<dots> = map (\<lambda>i. if i < Suc k then (res ! i)[i := d] else res ! i) [0..<length res]"
    using Suc.prems by (intro nth_equalityI) (auto simp add: nth_list_update less_Suc_eq)
  finally show ?case .
qed

text \<open>
  Claim C4, as amended. \<open>make_zero_diagonal_table(1)\<close> returns the one-dimensional array
  \<open>[1.0]\<close>; and for every \<open>n \<ge> 2\<close>, \<open>make_zero_diagonal_table(n)\<close> returns an \<open>n \<times> n\<close> matrix
  with \<open>0.0\<close> at every diagonal entry and, at every off-diagonal entry, the float
  \<open>(1.0 - 0.0) / (n - 1)\<close> that the code computes, which is the float quotient \<open>1.0 / (n - 1)\<close>
  as \<open>1.0 - 0.0\<close> is \<open>1.0\<close>. The statement holds for every type of floats: nothing is said of
  the sum of a row, which depends on how additions round.
\<close>

theorem make_zero_diagonal_table_entries:
  fixes to_float :: "int \<Rightarrow> 'f::{zero,one,minus,inverse}"
  shows
  "make_zero_diagonal_table to_float 1 = Inr (Array1 [1]) \<and>
   (2 \<le> n \<longrightarrow>
      (\<exists>res. make_zero_diagonal_table to_float n = Inr (Array2 res) \<and>
         length res = nat n \<and>
         (\<forall>i<nat n.
            length (res ! i) = nat n \<and>
            res ! i ! i = 0 \<and>
            (\<forall>j<nat n. j \<noteq> i \<longrightarrow>
               res ! i ! j = (1 - 0) / to_float (n - 1) \<and>
               (1 - 0 = (1 :: 'f) \<longrightarrow>
                  res ! i ! j = 1 / to_float (n - 1))))))"
proof (intro conjI impI)
  show "make_zero_diagonal_table to_float 1 = Inr (Array1 [1])"
    by (simp add: make_zero_diagonal_table_def)
next
  assume n: "2 \<le> n"
  define c :: 'f where "c = (1 - 0) / to_float (n - 1)"
  define filled where "filled = replicate (nat n) (replicate (nat n) c)"
  define res where
    "res = map (\<lambda>i. if i < nat n then (filled ! i)[i := 0] else filled ! i) [0..<length filled]"
  have len: "length filled = nat n"
    by (simp add: filled_def)
  have "fold (\<lambda>i r. r[i := (r ! i)[i := 0]]) [0..<nat n] filled = res"
    unfolding res_def by (rule set_diagonal) (simp add: len)
  then have result: "make_zero_diagonal_table to_float n = Inr (Array2 res)"
    using n by (simp add: make_zero_diagonal_table_def fill_array_def py_range_def
        c_def filled_def)
  have row: "res ! i = (replicate (nat n) c)[i := 0]" if "i < nat n" for i
    using that by (simp add: res_def len filled_def)
  have "length (res ! i) = nat n \<and> res ! i ! i = 0 \<and>
        (\<forall>j<nat n. j \<noteq> i \<longrightarrow>
           res ! i ! j = (1 - 0) / to_float (n - 1) \<and>
           (1 - 0 = (1 :: 'f) \<longrightarrow> res ! i ! j = 1 / to_float (n - 1)))" if i: "i < nat n" for i
    using i by (simp add: row c_def)
  moreover have "length res = nat n"
    by (simp add: res_def len)
  ultimately show "\<exists>res. make_zero_diagonal_table to_float n = Inr (Array2 res) \<and>
         length res = nat n \<and>
         (\<forall>i<nat n.
            length (res ! i) = nat n \<and>
            res ! i ! i = 0 \<and>
            (\<forall>j<nat n. j \<noteq> i \<longrightarrow>
               res ! i ! j = (1 - 0) / to_float (n - 1) \<and>
               (1 - 0 = (1 :: 'f) \<longrightarrow> res ! i ! j = 1 / to_float (n - 1))))"
    using result by blast
qed

text \<open>
  For three labels every off-diagonal entry is \<open>0.5\<close>, a quotient that is exact: the floats
  are here the reals.
\<close>

theorem make_zero_diagonal_table_entries_witness:
  "make_zero_diagonal_table real_of_int 3 =
     Inr (Array2 [[0, 1 / 2, 1 / 2], [1 / 2, 0, 1 / 2], [1 / 2, 1 / 2, 0]])"
proof -
  from make_zero_diagonal_table_entries [of real_of_int 3]
  obtain res where r: "make_zero_diagonal_table real_of_int 3 = Inr (Array2 res)"
    and len: "length res = nat 3"
    and rows: "\<forall>i<nat 3. length (res ! i) = nat 3 \<and> res ! i ! i = 0 \<and>
                 (\<forall>j<nat 3. j \<noteq> i \<longrightarrow> res ! i ! j = (1 - 0) / real_of_int (3 - 1) \<and>
                    (1 - 0 = (1 :: real) \<longrightarrow> res ! i ! j = 1 / real_of_int (3 - 1)))"
    by auto
  have three: "nat 3 = 3" "{..<3::nat} = {0, 1, 2}"
    by auto
  have row: "res ! i = map (\<lambda>j. if j = i then 0 else 1 / 2) [0..<3]" if "i < 3" for i
    using rows [rule_format, of i] that
    by (intro nth_equalityI) (auto simp add: three)
  have "res = map (\<lambda>i. res ! i) [0..<3]"
    using len by (intro nth_equalityI) auto
  also have "\<dots> = map (\<lambda>i. map (\<lambda>j. if j = i then 0 else 1 / 2) [0..<3]) [0..<3]"
    using row by simp
  also have "\<dots> = [[0, 1 / 2, 1 / 2], [1 / 2, 0, 1 / 2], [1 / 2, 1 / 2, 0]]"
    by (simp add: upt_rec)
  finally show ?thesis
    using r by simp
qed

text \<open>The value returned for one label is not a \<open>1 \<times> 1\<close> matrix.\<close>

theorem make_zero_diagonal_table_one_counterexample:
  "make_zero_diagonal_table real_of_int 1 = Inr (Array1 [1]) \<and>
   make_zero_diagonal_table real_of_int 1 \<noteq> Inr (Array2 [[1]])"
  by (simp add: make_zero_diagonal_table_def)

section \<open>Properties of the duration table\<close>

lemma replicate_step: "0 < n \<Longrightarrow> replicate n x = x # replicate (n - 1) x"
  by (cases n) simp_all





text \<open>
  The builder returns a table whenever the configuration is well formed: at least one
  countdown value, a row of \<open>seg_table\<close> and an initial countdown for no more than \<open>num_segs\<close>
  labels, and a positive resolution.
\<close>

lemma label_loop_returns:
  assumes "\<forall>l\<in>set labels. l < length (seg_countdowns_initial self)"
  shows "\<exists>res'. label_loop self allow prevent labels res = Inr res'"
  using assms by (induction labels arbitrary: res) (simp_all add: Let_def)

lemma calc_prob_transition_returns:
  assumes "0 < resolution self" and "0 \<le> len"
  shows "\<exists>p. calc_prob_transition true_div self len = Inr p"
proof -
  have "0 \<le> len div resolution self"
    using assms by (simp add: pos_imp_zdiv_nonneg_iff)
  then have "1 + len div resolution self \<noteq> 0"
    by simp
  then show ?thesis
    using assms(1)
    by (simp add: calc_prob_transition_def prob_transition_from_expected_len_def Let_def)
qed

lemma make_dense_cpt_segCountDown_seg_segTransition_returns:
  assumes "0 < card_seg_countdown self" and "0 \<le> num_segs self"
    and "length (seg_table self) \<le> nat (num_segs self)"
    and "length (seg_table self) \<le> length (seg_countdowns_initial self)"
    and "0 < resolution self"
  shows "\<exists>res. make_dense_cpt_segCountDown_seg_segTransition true_div self = Inr res"
proof -
  obtain seg where seg: "calc_prob_transition true_div self LEN_SEG_EXPECTED = Inr seg"
    using calc_prob_transition_returns [OF assms(5), of LEN_SEG_EXPECTED true_div]
    by (auto simp add: LEN_SEG_EXPECTED_def)
  obtain subseg where subseg: "calc_prob_transition true_div self LEN_SUBSEG_EXPECTED = Inr subseg"
    using calc_prob_transition_returns [OF assms(5), of LEN_SUBSEG_EXPECTED true_div]
    by (auto simp add: LEN_SUBSEG_EXPECTED_def)
  have "\<forall>l\<in>set (filter (\<lambda>l. offset_end (seg_table self ! l) \<noteq> 0) [0..<length (seg_table self)]).
          l < length (seg_countdowns_initial self)"
    using assms(4) by auto
  from label_loop_returns [OF this] show ?thesis
    using assms(1,2,3)
    by (simp add: make_dense_cpt_segCountDown_seg_segTransition_def seg subseg Let_def)
qed




text \<open>
  The countdown arithmetic wraps. One label with maximum \<open>1\<close>, minimum \<open>0\<close> and the greatest
  64-bit integer as initial countdown: \<open>seg_countdown_allow\<close> is the least 64-bit integer, the
  slice \<open>res[1:seg_countdown_allow, label]\<close> is empty and \<open>res[seg_countdown_allow:, label]\<close>
  is the whole column, so that every row holds \<open>probs_prevent_transition\<close>.
\<close>

lemma seg_countdown_allow_wraps:
  "seg_countdown_allow
     \<lparr>num_segs = 1, num_subsegs = 1, num_track_groups = 1, card_seg_countdown = 3,
      seg_countdowns_initial = [9223372036854775807],
      seg_table = [\<lparr>offset_start = 0, offset_end = 1, offset_step = 1\<rparr>],
      distribution = ''norm'', resolution = 100\<rparr> 0 = - 9223372036854775808"
  by (simp add: seg_countdown_allow_def np_floor_divide_def)

lemma make_dense_cpt_wrapped_countdown:
  "make_dense_cpt_segCountDown_seg_segTransition (\<lambda>a b. real_of_int a / real_of_int b)
     \<lparr>num_segs = 1, num_subsegs = 1, num_track_groups = 1, card_seg_countdown = 3,
      seg_countdowns_initial = [9223372036854775807],
      seg_table = [\<lparr>offset_start = 0, offset_end = 1, offset_step = 1\<rparr>],
      distribution = ''norm'', resolution = 100\<rparr> =
   Inr [[Some [1 / 2, 1 / 2, 0]], [Some [1 / 2, 1 / 2, 0]], [Some [1 / 2, 1 / 2, 0]]]"
proof -
  let ?self = "\<lparr>num_segs = 1, num_subsegs = 1, num_track_groups = 1, card_seg_countdown = 3,
      seg_countdowns_initial = [9223372036854775807],
      seg_table = [\<lparr>offset_start = 0, offset_end = 1, offset_step = 1\<rparr>],
      distribution = ''norm'', resolution = 100\<rparr>"
  let ?div = "\<lambda>a b. real_of_int a / real_of_int b"
  have seg: "calc_prob_transition ?div ?self LEN_SEG_EXPECTED = Inr (1000 / 1001, 1 / 1001)"
    by (simp add: calc_prob_transition_def prob_transition_from_expected_len_def
        LEN_SEG_EXPECTED_def)
  have subseg: "calc_prob_transition ?div ?self LEN_SUBSEG_EXPECTED = Inr (1 / 2, 1 / 2)"
    by (simp add: calc_prob_transition_def prob_transition_from_expected_len_def
        LEN_SUBSEG_EXPECTED_def)
  show ?thesis
    by (simp add: make_dense_cpt_segCountDown_seg_segTransition_def seg subseg
        seg_countdown_allow_wraps replicate_step
        probs_allow_transition_def probs_prevent_transition_def probs_force_transition_def
        empty_cpt_def assign_rows_def slice_bound_def Let_def)
qed

section \<open>Properties of the free-parameter count\<close>

text \<open>Rendering the kinds that the builders register never raises.\<close>

lemma collect_map_Inr: "collect (map (\<lambda>i. Inr (f i)) xs) = Inr (map f xs)"
  by (induction xs) simp_all

lemma generate_kind_returns:
  "\<exists>b. generate_kind header (\<lambda>obj i. Inr (gen obj i)) d = Inr b"
  by (simp add: generate_kind_def collect_map_Inr)

lemma render_returns:
  "\<exists>b. generate_name_col im = Inr b" "\<exists>b. generate_mean sv im = Inr b"
  "\<exists>b. generate_covar sv im = Inr b" "\<exists>b. generate_dpmf sv im = Inr b"
  "\<exists>b. generate_mc im = Inr b" "\<exists>b. generate_mx im = Inr b"
  unfolding generate_name_col_def generate_mean_def generate_covar_def generate_dpmf_def
    generate_mc_def generate_mx_def
  by (rule generate_kind_returns)+

lemma render_skip:
  "(case generate_name_col im of Inl e \<Rightarrow> Inl e | Inr spec \<Rightarrow> Inr x) = Inr x"
  "(case generate_mean sv im of Inl e \<Rightarrow> Inl e | Inr spec \<Rightarrow> Inr x) = Inr x"
  "(case generate_covar sv im of Inl e \<Rightarrow> Inl e | Inr spec \<Rightarrow> Inr x) = Inr x"
  "(case generate_dpmf sv im of Inl e \<Rightarrow> Inl e | Inr spec \<Rightarrow> Inr x) = Inr x"
  "(case generate_mc im of Inl e \<Rightarrow> Inl e | Inr spec \<Rightarrow> Inr x) = Inr x"
  "(case generate_mx im of Inl e \<Rightarrow> Inl e | Inr spec \<Rightarrow> Inr x) = Inr x"
  using render_returns(1) [of im] render_returns(2) [of sv im] render_returns(3) [of sv im]
    render_returns(4) [of sv im] render_returns(5) [of im] render_returns(6) [of im]
  by auto

text \<open>Facts for running the builders on a concrete configuration.\<close>

lemma str_nat_digits: "str_nat 0 = ''0''" "str_nat (Suc 0) = ''1''"
  by (simp_all add: str_nat.simps digit_char_def)

lemma three_div_two: "Suc (Suc (Suc 0)) div Suc (Suc 0) = Suc 0"
  by (simp add: numeral_2_eq_2 [symmetric] numeral_3_eq_3 [symmetric])

lemmas builder_defs = make_mapping_def generate_name_collection_def generate_mean_objects_def
  generate_covar_objects_def generate_mc_objects_def generate_dpmf_objects_def
  generate_mx_objects_def names_for_def generate_gmtk_obj_names_def allowed_types_def
  general_line_def py_range_def py_range_step_def py_index_def make_mean_data_def
  DISTRIBUTIONS_LIKE_NORM_def COVAR_TIED_def update_def DPMF_init_def MX_init_def py_sum_def
  InputMaster_init_def Let_def render_skip str_nat_digits three_div_two upt_rec

text \<open>
  \<open>make_mapping\<close> does not return on every configuration. With two subsegments per segment
  \<open>generate_mean_objects\<close> has four names for two rows of mean data and raises \<open>IndexError\<close>;
  with no segment \<open>generate_name_collection\<close> asks for a \<open>range\<close> of step zero and raises
  \<open>ValueError\<close>; with two mixture components \<open>generate_dpmf_objects\<close> hands a character to
  \<open>DPMF\<close> and raises \<open>TypeError\<close>.
\<close>

lemma make_mapping_raises:
  "make_mapping
     \<lparr>DISTRIBUTION_NORM = ''norm'', DISTRIBUTION_ASINH_NORMAL = ''asinh_norm'',
      DISTRIBUTION_GAMMA = ''gamma'', USE_MFSDG = False,
      str_value = (\<lambda>v. ''1.0''), mean_data_row = (\<lambda>seg. 0 :: real), weight_text = ''0.5''\<rparr>
     \<lparr>num_segs = 2, num_subsegs = 2, num_track_groups = 1, card_seg_countdown = 2,
      seg_countdowns_initial = [1, 1], seg_table = [], distribution = ''norm'',
      resolution = 1, tracks = [''t1''], means = [0], vars = [1], num_mix_components = 1\<rparr>
     InputMaster_init = Inl IndexError"
  "make_mapping
     \<lparr>DISTRIBUTION_NORM = ''norm'', DISTRIBUTION_ASINH_NORMAL = ''asinh_norm'',
      DISTRIBUTION_GAMMA = ''gamma'', USE_MFSDG = False,
      str_value = (\<lambda>v. ''1.0''), mean_data_row = (\<lambda>seg. 0 :: real), weight_text = ''0.5''\<rparr>
     \<lparr>num_segs = 0, num_subsegs = 1, num_track_groups = 1, card_seg_countdown = 2,
      seg_countdowns_initial = [1, 1], seg_table = [], distribution = ''norm'',
      resolution = 1, tracks = [''t1''], means = [0], vars = [1], num_mix_components = 1\<rparr>
     InputMaster_init = Inl ValueError"
  "make_mapping
     \<lparr>DISTRIBUTION_NORM = ''norm'', DISTRIBUTION_ASINH_NORMAL = ''asinh_norm'',
      DISTRIBUTION_GAMMA = ''gamma'', USE_MFSDG = False,
      str_value = (\<lambda>v. ''1.0''), mean_data_row = (\<lambda>seg. 0 :: real), weight_text = ''0.5''\<rparr>
     \<lparr>num_segs = 2, num_subsegs = 1, num_track_groups = 1, card_seg_countdown = 2,
      seg_countdowns_initial = [1, 1], seg_table = [], distribution = ''norm'',
      resolution = 1, tracks = [''t1''], means = [0], vars = [1], num_mix_components = 2\<rparr>
     InputMaster_init = Inl TypeError"
  by (simp_all add: builder_defs)

text \<open>
  With the gamma distribution the same configuration returns the count \<open>2 + 2 + 4 = 8\<close>.
\<close>

lemma make_mapping_gamma_example:
  "make_mapping
     \<lparr>DISTRIBUTION_NORM = ''norm'', DISTRIBUTION_ASINH_NORMAL = ''asinh_norm'',
      DISTRIBUTION_GAMMA = ''gamma'', USE_MFSDG = False,
      str_value = (\<lambda>v. ''1.0''), mean_data_row = (\<lambda>seg. 0 :: real), weight_text = ''0.5''\<rparr>
     \<lparr>num_segs = 2, num_subsegs = 1, num_track_groups = 1, card_seg_countdown = 2,
      seg_countdowns_initial = [1, 1], seg_table = [], distribution = ''gamma'',
      resolution = 1, tracks = [''t1''], means = [0], vars = [1], num_mix_components = 1\<rparr>
     InputMaster_init = Inr 8"
  by (simp add: builder_defs)



end
